theory Spec2Isabelle
  imports Complex_Main "HOL-Library.Sublist"
begin

section \<open>The TrueSight backend: values of the JavaScript program\<close>

text \<open>
  The program is \<^verbatim>\<open>backend.js\<close>: an Express handler for \<^verbatim>\<open>POST /analyze\<close>, the two
  provider functions \<^verbatim>\<open>analyzeWithClaude\<close> and \<^verbatim>\<open>analyzeWithDeepSeek\<close>, and
  \<^verbatim>\<open>performMockAnalysis\<close>. The source file holds two copies of the program that differ in
  the wording of the prompt sent to the provider only; one model covers both.

  Strings are \<^typ>\<open>string\<close>: lists of 8-bit characters, read as the UTF-16 code units
  U+0000 to U+00FF. A text with a code unit above U+00FF is outside this model.
\<close>

subsection \<open>Strings: the methods of \<^verbatim>\<open>String.prototype\<close> the program calls\<close>

text \<open>
  \<^verbatim>\<open>trim\<close> and the regular expression class \<^verbatim>\<open>\s\<close> agree on white space. Below U+0100 it
  is TAB, LF, VT, FF, CR, SPACE and NBSP.
\<close>

definition isWhiteSpace :: "char \<Rightarrow> bool" where
  "isWhiteSpace c =
     (c = CHR 0x09 \<or> c = CHR 0x0A \<or> c = CHR 0x0B \<or> c = CHR 0x0C \<or> c = CHR 0x0D \<or>
      c = CHR 0x20 \<or> c = CHR 0xA0)"

definition trimStart :: "string \<Rightarrow> string" where
  "trimStart s = dropWhile isWhiteSpace s"

definition trimEnd :: "string \<Rightarrow> string" where
  "trimEnd s = rev (dropWhile isWhiteSpace (rev s))"

definition trim :: "string \<Rightarrow> string" where
  "trim s = trimEnd (trimStart s)"

text \<open>\<^verbatim>\<open>s.includes(t)\<close>: \<^verbatim>\<open>t\<close> occurs in \<^verbatim>\<open>s\<close> as a contiguous run.\<close>

fun includes_str :: "string \<Rightarrow> string \<Rightarrow> bool" where
  "includes_str [] t = (t = [])"
| "includes_str (c # cs) t = (prefix t (c # cs) \<or> includes_str cs t)"

text \<open>
  \<^verbatim>\<open>toLowerCase\<close>, one code unit at a time. Below U+0100 the upper-case letters are A to Z
  and U+00C0 to U+00DE without the multiplication sign U+00D7; each has its lower-case
  letter 32 places above, which is the same code with bit 5 set.
\<close>

definition isUpperCase :: "char \<Rightarrow> bool" where
  "isUpperCase c =
     (let n = (of_char c :: nat)
      in (65 \<le> n \<and> n \<le> 90) \<or> (192 \<le> n \<and> n \<le> 222 \<and> n \<noteq> 215))"

fun setBit5 :: "char \<Rightarrow> char" where
  "setBit5 (Char b0 b1 b2 b3 b4 b5 b6 b7) = Char b0 b1 b2 b3 b4 True b6 b7"

definition lowerChar :: "char \<Rightarrow> char" where
  "lowerChar c = (if isUpperCase c then setBit5 c else c)"

definition toLowerCase :: "string \<Rightarrow> string" where
  "toLowerCase s = map lowerChar s"

text \<open>\<^verbatim>\<open>s.split(sep)\<close> for a separator of one character: never an empty array.\<close>

fun split_str :: "char \<Rightarrow> string \<Rightarrow> string list" where
  "split_str sep [] = [[]]"
| "split_str sep (c # cs) =
     (if c = sep then [] # split_str sep cs
      else (case split_str sep cs of
              [] \<Rightarrow> [[c]]
            | p # ps \<Rightarrow> (c # p) # ps))"

text \<open>The decimal digits of a number, as a template literal prints \<^verbatim>\<open>response.status\<close>.\<close>

definition digitChar :: "nat \<Rightarrow> char" where
  "digitChar d = ''0123456789'' ! (d mod 10)"

fun decimal :: "nat \<Rightarrow> string" where
  "decimal n = (if n < 10 then [digitChar n] else decimal (n div 10) @ [digitChar n])"

declare decimal.simps [simp del]

subsection \<open>Numbers\<close>

text \<open>
  A JavaScript Number that the program can hold: \<^verbatim>\<open>JSON.parse\<close> and \<^verbatim>\<open>Math.random\<close> never
  give NaN, so a Number is a finite value or one of the two infinities. A finite value is
  kept exact, as a rational; the rounding of a decimal literal or of a product to the nearest
  binary64 value is not modelled.
\<close>

datatype jsnum = Finite rat | PosInfinity | NegInfinity

fun Math_round :: "jsnum \<Rightarrow> jsnum" where
  "Math_round (Finite q) = Finite (of_int \<lfloor>q + 1 / 2\<rfloor>)"
| "Math_round PosInfinity = PosInfinity"
| "Math_round NegInfinity = NegInfinity"

fun Math_floor :: "jsnum \<Rightarrow> jsnum" where
  "Math_floor (Finite q) = Finite (of_int \<lfloor>q\<rfloor>)"
| "Math_floor PosInfinity = PosInfinity"
| "Math_floor NegInfinity = NegInfinity"

fun Math_max :: "jsnum \<Rightarrow> jsnum \<Rightarrow> jsnum" where
  "Math_max (Finite a) (Finite b) = Finite (max a b)"
| "Math_max PosInfinity _ = PosInfinity"
| "Math_max _ PosInfinity = PosInfinity"
| "Math_max NegInfinity b = b"
| "Math_max a NegInfinity = a"

fun Math_min :: "jsnum \<Rightarrow> jsnum \<Rightarrow> jsnum" where
  "Math_min (Finite a) (Finite b) = Finite (min a b)"
| "Math_min NegInfinity _ = NegInfinity"
| "Math_min _ NegInfinity = NegInfinity"
| "Math_min PosInfinity b = b"
| "Math_min a PosInfinity = a"

fun num_times :: "jsnum \<Rightarrow> rat \<Rightarrow> jsnum" where
  "num_times (Finite a) b = Finite (a * b)"
| "num_times PosInfinity b = (if 0 < b then PosInfinity else NegInfinity)"
| "num_times NegInfinity b = (if 0 < b then NegInfinity else PosInfinity)"

fun num_plus :: "jsnum \<Rightarrow> rat \<Rightarrow> jsnum" where
  "num_plus (Finite a) b = Finite (a + b)"
| "num_plus PosInfinity b = PosInfinity"
| "num_plus NegInfinity b = NegInfinity"

fun greaterThan :: "jsnum \<Rightarrow> rat \<Rightarrow> bool" where
  "greaterThan (Finite a) b = (a > b)"
| "greaterThan PosInfinity b = True"
| "greaterThan NegInfinity b = False"

text \<open>A Number is an integer of the interval from \<open>lo\<close> to \<open>hi\<close>.\<close>

definition integerIn :: "int \<Rightarrow> int \<Rightarrow> jsnum \<Rightarrow> bool" where
  "integerIn lo hi x =
     (case x of Finite q \<Rightarrow> q = of_int \<lfloor>q\<rfloor> \<and> of_int lo \<le> q \<and> q \<le> of_int hi | _ \<Rightarrow> False)"

subsection \<open>JSON values\<close>

text \<open>
  What \<^verbatim>\<open>JSON.parse\<close> and \<^verbatim>\<open>response.json()\<close> return. An object keeps its members in
  the order of the text; when a key is repeated, the last member is the property.
  \<^verbatim>\<open>undefined\<close> is \<open>None\<close> of \<^typ>\<open>'a option\<close>.
\<close>

datatype json =
    JNull
  | JBool bool
  | JNumber jsnum
  | JString string
  | JArray "json list"
  | JObject "(string \<times> json) list"

text \<open>
  \<^verbatim>\<open>v.name\<close> for a value that is neither \<^verbatim>\<open>null\<close> nor \<^verbatim>\<open>undefined\<close>, and for a name
  that no prototype defines (the program reads \<^verbatim>\<open>content\<close>, \<^verbatim>\<open>type\<close>, \<^verbatim>\<open>text\<close>,
  \<^verbatim>\<open>choices\<close>, \<^verbatim>\<open>message\<close>, \<^verbatim>\<open>isOriginal\<close>, \<^verbatim>\<open>confidence\<close> and \<^verbatim>\<open>observations\<close>):
  only an object has such a property.
\<close>

fun getProp :: "json \<Rightarrow> string \<Rightarrow> json option" where
  "getProp (JObject members) name = map_of (rev members) name"
| "getProp _ name = None"

text \<open>\<^verbatim>\<open>v[0]\<close>: the first element of an array, the first code unit of a string.\<close>

fun getIndex0 :: "json \<Rightarrow> json option" where
  "getIndex0 (JArray []) = None"
| "getIndex0 (JArray (x # xs)) = Some x"
| "getIndex0 (JString []) = None"
| "getIndex0 (JString (c # cs)) = Some (JString [c])"
| "getIndex0 (JObject members) = map_of (rev members) ''0''"
| "getIndex0 _ = None"

text \<open>The values that count as false in a condition and in \<^verbatim>\<open>||\<close>.\<close>

fun falsy :: "json option \<Rightarrow> bool" where
  "falsy None = True"
| "falsy (Some JNull) = True"
| "falsy (Some (JBool b)) = (\<not> b)"
| "falsy (Some (JNumber n)) = (n = Finite 0)"
| "falsy (Some (JString s)) = (s = [])"
| "falsy (Some _) = False"

subsection \<open>\<^verbatim>\<open>JSON.parse\<close>\<close>

text \<open>
  \<^verbatim>\<open>JSON.parse\<close> is modelled from the JSON grammar (ECMA-404) in two passes: the text is
  cut into tokens, and the tokens are read by a machine with a stack of the arrays and
  objects that are open. A text that the grammar refuses gives \<open>None\<close>, where
  \<^verbatim>\<open>JSON.parse\<close> throws a SyntaxError. An escape \<^verbatim>\<open>\uXXXX\<close> denotes the code unit XXXX; an
  escape above code unit 255 has no value in \<^typ>\<open>char\<close>, and a text with one is outside this
  model (it is refused here).
\<close>

datatype token =
    TLBrace | TRBrace | TLBracket | TRBracket | TColon | TComma
  | TString string | TNumber jsnum | TTrue | TFalse | TNull

definition isJsonWs :: "char \<Rightarrow> bool" where
  "isJsonWs c = (c = CHR 0x09 \<or> c = CHR 0x0A \<or> c = CHR 0x0D \<or> c = CHR 0x20)"

definition isDigit :: "char \<Rightarrow> bool" where
  "isDigit c = (c \<in> set ''0123456789'')"

definition digitVal :: "char \<Rightarrow> nat" where
  "digitVal c = (of_char c :: nat) - 48"

definition hexVal :: "char \<Rightarrow> nat option" where
  "hexVal c =
     (if isDigit c then Some (digitVal c)
      else if c \<in> set ''abcdef'' then Some ((of_char c :: nat) - 87)
      else if c \<in> set ''ABCDEF'' then Some ((of_char c :: nat) - 55)
      else None)"

fun hex4 :: "string \<Rightarrow> char option" where
  "hex4 [a, b, c, d] =
     (case (hexVal a, hexVal b, hexVal c, hexVal d) of
        (Some h3, Some h2, Some h1, Some h0) \<Rightarrow>
          (if h3 = 0 \<and> h2 = 0 then Some (char_of (16 * h1 + h0)) else None)
      | _ \<Rightarrow> None)"
| "hex4 _ = None"

definition simpleEscape :: "char \<Rightarrow> char option" where
  "simpleEscape e =
     (if e = CHR 0x22 then Some (CHR 0x22)
      else if e = CHR 0x5C then Some (CHR 0x5C)
      else if e = CHR ''/'' then Some (CHR ''/'')
      else if e = CHR ''b'' then Some (CHR 0x08)
      else if e = CHR ''f'' then Some (CHR 0x0C)
      else if e = CHR ''n'' then Some (CHR 0x0A)
      else if e = CHR ''r'' then Some (CHR 0x0D)
      else if e = CHR ''t'' then Some (CHR 0x09)
      else None)"

definition consChar :: "char \<Rightarrow> (string \<times> string) option \<Rightarrow> (string \<times> string) option" where
  "consChar c r = (case r of None \<Rightarrow> None | Some (str, rest) \<Rightarrow> Some (c # str, rest))"

text \<open>
  The characters of a string after its opening quote, up to the closing quote: the string
  and the text that follows it.
\<close>

fun lexString :: "string \<Rightarrow> (string \<times> string) option" where
  "lexString [] = None"
| "lexString (c # cs) =
     (if c = CHR 0x22 then Some ([], cs)
      else if c = CHR 0x5C then
        (case cs of
           [] \<Rightarrow> None
         | e # es \<Rightarrow>
             (if e = CHR ''u'' then
                (case hex4 (take 4 es) of
                   None \<Rightarrow> None
                 | Some ch \<Rightarrow> consChar ch (lexString (drop 4 es)))
              else
                (case simpleEscape e of
                   None \<Rightarrow> None
                 | Some ch \<Rightarrow> consChar ch (lexString es))))
      else if (of_char c :: nat) < 32 then None
      else consChar c (lexString cs))"

definition digitsValue :: "string \<Rightarrow> nat" where
  "digitsValue ds = foldl (\<lambda>a d. 10 * a + digitVal d) 0 ds"

text \<open>A value too large for binary64 becomes an infinity, as in \<^verbatim>\<open>JSON.parse("1e999")\<close>.\<close>

definition toNumber :: "rat \<Rightarrow> jsnum" where
  "toNumber q =
     (if 2 ^ 1024 - 2 ^ 970 \<le> q then PosInfinity
      else if q \<le> - (2 ^ 1024 - 2 ^ 970) then NegInfinity
      else Finite q)"

text \<open>
  A number at the start of the text: an optional minus sign, an integer part without a
  leading zero, an optional fraction, an optional exponent. Each part gives what it read
  and the text that follows it.
\<close>

definition lexInt :: "string \<Rightarrow> (string \<times> string) option" where
  "lexInt s =
     (let ip = takeWhile isDigit s
      in if ip = [] \<or> (hd ip = CHR ''0'' \<and> length ip > 1) then None
         else Some (ip, dropWhile isDigit s))"

fun lexFrac :: "string \<Rightarrow> (string \<times> string) option" where
  "lexFrac [] = Some ([], [])"
| "lexFrac (c # cs) =
     (if c = CHR ''.'' then
        (if takeWhile isDigit cs = [] then None
         else Some (takeWhile isDigit cs, dropWhile isDigit cs))
      else Some ([], c # cs))"

definition lexExpDigits :: "bool \<Rightarrow> string \<Rightarrow> (int \<times> string) option" where
  "lexExpDigits neg s =
     (if takeWhile isDigit s = [] then None
      else Some ((if neg then - int (digitsValue (takeWhile isDigit s))
                  else int (digitsValue (takeWhile isDigit s))),
                 dropWhile isDigit s))"

fun lexExp :: "string \<Rightarrow> (int \<times> string) option" where
  "lexExp [] = Some (0, [])"
| "lexExp (c # cs) =
     (if c = CHR ''e'' \<or> c = CHR ''E'' then
        (case cs of
           [] \<Rightarrow> None
         | d # ds \<Rightarrow>
             (if d = CHR ''-'' then lexExpDigits True ds
              else if d = CHR ''+'' then lexExpDigits False ds
              else lexExpDigits False (d # ds)))
      else Some (0, c # cs))"

definition scale10 :: "rat \<Rightarrow> int \<Rightarrow> rat" where
  "scale10 m e = (if 0 \<le> e then m * 10 ^ nat e else m / 10 ^ nat (- e))"

definition lexUnsigned :: "string \<Rightarrow> (rat \<times> string) option" where
  "lexUnsigned s =
     (case lexInt s of
        None \<Rightarrow> None
      | Some (ip, s2) \<Rightarrow>
          (case lexFrac s2 of
             None \<Rightarrow> None
           | Some (fd, s3) \<Rightarrow>
               (case lexExp s3 of
                  None \<Rightarrow> None
                | Some (e, s4) \<Rightarrow>
                    Some (scale10 (of_nat (digitsValue (ip @ fd)) / 10 ^ length fd) e, s4))))"

fun lexNumber :: "string \<Rightarrow> (jsnum \<times> string) option" where
  "lexNumber [] = None"
| "lexNumber (c # cs) =
     (if c = CHR ''-'' then
        (case lexUnsigned cs of
           None \<Rightarrow> None
         | Some (q, rest) \<Rightarrow> Some (toNumber (- q), rest))
      else
        (case lexUnsigned (c # cs) of
           None \<Rightarrow> None
         | Some (q, rest) \<Rightarrow> Some (toNumber q, rest)))"

text \<open>Each lexing function leaves a shorter text: the token loop below terminates.\<close>

lemma consChar_Some:
  "consChar c r = Some (str, rest) \<Longrightarrow> \<exists>str'. r = Some (str', rest)"
  by (auto simp: consChar_def split: option.splits)

lemma lexString_shorter: "lexString s = Some (str, rest) \<Longrightarrow> length rest < length s"
proof (induction s arbitrary: str rest rule: lexString.induct)
  case 1
  then show ?case by simp
next
  case (2 c cs)
  show ?case
  proof (cases "c = CHR 0x22")
    case True
    with "2.prems" show ?thesis by simp
  next
    case notq: False
    show ?thesis
    proof (cases "c = CHR 0x5C")
      case True
      then obtain e es where cs: "cs = e # es"
        using "2.prems" notq by (cases cs) auto
      show ?thesis
      proof (cases "e = CHR ''u''")
        case eu: True
        then obtain ch where h: "hex4 (take 4 es) = Some ch"
          using "2.prems" notq True cs by (auto split: option.splits)
        with "2.prems" notq True cs eu
        have "consChar ch (lexString (drop 4 es)) = Some (str, rest)" by simp
        then obtain str' where "lexString (drop 4 es) = Some (str', rest)"
          using consChar_Some by blast
        from "2.IH"(1)[OF notq True cs eu h this] show ?thesis using cs by simp
      next
        case eu: False
        then obtain ch where h: "simpleEscape e = Some ch"
          using "2.prems" notq True cs by (auto split: option.splits)
        with "2.prems" notq True cs eu
        have "consChar ch (lexString es) = Some (str, rest)" by simp
        then obtain str' where "lexString es = Some (str', rest)"
          using consChar_Some by blast
        from "2.IH"(2)[OF notq True cs eu h this] show ?thesis using cs by simp
      qed
    next
      case False
      with "2.prems" notq have ctl: "\<not> (of_char c :: nat) < 32"
        and "consChar c (lexString cs) = Some (str, rest)"
        by (auto split: if_splits)
      then obtain str' where "lexString cs = Some (str', rest)"
        using consChar_Some by blast
      from "2.IH"(3)[OF notq False ctl this] show ?thesis by simp
    qed
  qed
qed

lemma length_dropWhile_less:
  "takeWhile P xs \<noteq> [] \<Longrightarrow> length (dropWhile P xs) < length xs"
  by (cases xs) (auto simp: le_imp_less_Suc length_dropWhile_le split: if_splits)

lemma lexInt_shorter: "lexInt s = Some (ip, rest) \<Longrightarrow> length rest < length s"
  by (auto simp: lexInt_def Let_def length_dropWhile_less split: if_splits)

lemma lexFrac_shorter: "lexFrac s = Some (fd, rest) \<Longrightarrow> length rest \<le> length s"
  by (cases s) (auto simp: le_SucI length_dropWhile_le split: if_splits)

lemma lexExpDigits_shorter: "lexExpDigits neg s = Some (e, rest) \<Longrightarrow> length rest \<le> length s"
  by (auto simp: lexExpDigits_def length_dropWhile_le split: if_splits)

lemma lexExp_shorter: "lexExp s = Some (e, rest) \<Longrightarrow> length rest \<le> length s"
proof (cases s)
  case Nil
  assume "lexExp s = Some (e, rest)"
  with Nil show ?thesis by simp
next
  case (Cons c cs)
  assume a: "lexExp s = Some (e, rest)"
  show ?thesis
  proof (cases "c = CHR ''e'' \<or> c = CHR ''E''")
    case False
    with a Cons show ?thesis by auto
  next
    case True
    with a Cons obtain d ds where cs: "cs = d # ds" by (cases cs) auto
    from a Cons True cs have "length rest \<le> length cs"
      by (auto split: if_splits dest!: lexExpDigits_shorter)
    then show ?thesis using Cons by simp
  qed
qed

lemma lexUnsigned_shorter: "lexUnsigned s = Some (q, rest) \<Longrightarrow> length rest < length s"
proof -
  assume a: "lexUnsigned s = Some (q, rest)"
  then obtain ip s2 where 1: "lexInt s = Some (ip, s2)"
    by (auto simp: lexUnsigned_def split: option.splits)
  with a obtain fd s3 where 2: "lexFrac s2 = Some (fd, s3)"
    by (auto simp: lexUnsigned_def split: option.splits)
  with a 1 obtain e where 3: "lexExp s3 = Some (e, rest)"
    by (auto simp: lexUnsigned_def split: option.splits)
  from lexInt_shorter[OF 1] lexFrac_shorter[OF 2] lexExp_shorter[OF 3]
  show ?thesis by simp
qed

lemma lexNumber_shorter: "lexNumber s = Some (n, rest) \<Longrightarrow> length rest < length s"
  by (cases s) (auto split: if_splits option.splits dest: lexUnsigned_shorter)

text \<open>One token at the start of a text that does not start with white space.\<close>

definition lexPunct :: "char \<Rightarrow> token option" where
  "lexPunct c =
     (if c = CHR ''{'' then Some TLBrace
      else if c = CHR ''}'' then Some TRBrace
      else if c = CHR ''['' then Some TLBracket
      else if c = CHR '']'' then Some TRBracket
      else if c = CHR '':'' then Some TColon
      else if c = CHR '','' then Some TComma
      else None)"

definition lexLiteral :: "string \<Rightarrow> (token \<times> string) option" where
  "lexLiteral s =
     (if prefix ''true'' s then Some (TTrue, drop 4 s)
      else if prefix ''false'' s then Some (TFalse, drop 5 s)
      else if prefix ''null'' s then Some (TNull, drop 4 s)
      else None)"

definition lexToken :: "string \<Rightarrow> (token \<times> string) option" where
  "lexToken s =
     (case s of
        [] \<Rightarrow> None
      | c # cs \<Rightarrow>
          (case lexPunct c of
             Some tok \<Rightarrow> Some (tok, cs)
           | None \<Rightarrow>
               (if c = CHR 0x22 then
                  (case lexString cs of
                     None \<Rightarrow> None
                   | Some (str, rest) \<Rightarrow> Some (TString str, rest))
                else if c = CHR ''-'' \<or> isDigit c then
                  (case lexNumber s of
                     None \<Rightarrow> None
                   | Some (n, rest) \<Rightarrow> Some (TNumber n, rest))
                else lexLiteral s)))"

lemma lexLiteral_shorter: "lexLiteral s = Some (tok, rest) \<Longrightarrow> length rest < length s"
proof -
  assume a: "lexLiteral s = Some (tok, rest)"
  then have ne: "s \<noteq> []"
    by (auto simp: lexLiteral_def)
  from a have "rest = drop 4 s \<or> rest = drop 5 s"
    by (simp add: lexLiteral_def split: if_splits)
  then show ?thesis using ne by (cases s) auto
qed

lemma lexToken_shorter: "lexToken s = Some (tok, rest) \<Longrightarrow> length rest < length s"
proof (cases s)
  case Nil
  assume "lexToken s = Some (tok, rest)"
  with Nil show ?thesis by (simp add: lexToken_def)
next
  case (Cons c cs)
  assume a: "lexToken s = Some (tok, rest)"
  show ?thesis
  proof (cases "lexPunct c")
    case (Some t)
    with a Cons show ?thesis by (simp add: lexToken_def)
  next
    case None
    show ?thesis
    proof (cases "c = CHR 0x22")
      case True
      with a Cons None obtain str where "lexString cs = Some (str, rest)"
        by (auto simp: lexToken_def split: option.splits)
      from lexString_shorter[OF this] show ?thesis using Cons by simp
    next
      case nq: False
      show ?thesis
      proof (cases "c = CHR ''-'' \<or> isDigit c")
        case True
        with a Cons None nq obtain n where "lexNumber s = Some (n, rest)"
          by (auto simp: lexToken_def simp del: lexNumber.simps split: option.splits)
        from lexNumber_shorter[OF this] show ?thesis .
      next
        case False
        with a Cons None nq have "lexLiteral s = Some (tok, rest)"
          by (simp add: lexToken_def)
        from lexLiteral_shorter[OF this] show ?thesis .
      qed
    qed
  qed
qed

function lex :: "string \<Rightarrow> token list option" where
  "lex [] = Some []"
| "lex (c # cs) =
     (if isJsonWs c then lex cs
      else (case lexToken (c # cs) of
              None \<Rightarrow> None
            | Some (tok, rest) \<Rightarrow>
                (case lex rest of None \<Rightarrow> None | Some toks \<Rightarrow> Some (tok # toks))))"
  by pat_completeness simp_all
termination
proof (relation "measure length", goal_cases)
  case (3 c cs x2 tok rest)
  then show ?case using lexToken_shorter[of "c # cs" tok rest] by simp
qed simp_all

text \<open>
  The token machine. A frame is an open array with its elements so far, an open object with
  its members so far, or an open object whose next member has its key and waits for its
  value; elements and members are kept latest first.
\<close>

datatype frame =
    FArray "json list"
  | FObject "(string \<times> json) list"
  | FMember "(string \<times> json) list" string

datatype pstate =
    WantValue | WantValueOrClose | WantKeyOrClose | WantKey | WantColon | AfterValue
  | Done json

fun complete :: "json \<Rightarrow> frame list \<Rightarrow> (pstate \<times> frame list) option" where
  "complete v [] = Some (Done v, [])"
| "complete v (FArray acc # st) = Some (AfterValue, FArray (v # acc) # st)"
| "complete v (FMember acc k # st) = Some (AfterValue, FObject ((k, v) # acc) # st)"
| "complete v (FObject acc # st) = None"

fun startValue :: "token \<Rightarrow> frame list \<Rightarrow> (pstate \<times> frame list) option" where
  "startValue TLBracket st = Some (WantValueOrClose, FArray [] # st)"
| "startValue TLBrace st = Some (WantKeyOrClose, FObject [] # st)"
| "startValue (TString s) st = complete (JString s) st"
| "startValue (TNumber n) st = complete (JNumber n) st"
| "startValue TTrue st = complete (JBool True) st"
| "startValue TFalse st = complete (JBool False) st"
| "startValue TNull st = complete JNull st"
| "startValue _ st = None"

fun closeArray :: "frame list \<Rightarrow> (pstate \<times> frame list) option" where
  "closeArray (FArray acc # st) = complete (JArray (rev acc)) st"
| "closeArray _ = None"

fun closeObject :: "frame list \<Rightarrow> (pstate \<times> frame list) option" where
  "closeObject (FObject acc # st) = complete (JObject (rev acc)) st"
| "closeObject _ = None"

fun startMember :: "token \<Rightarrow> frame list \<Rightarrow> (pstate \<times> frame list) option" where
  "startMember (TString k) (FObject acc # st) = Some (WantColon, FMember acc k # st)"
| "startMember _ _ = None"

fun step :: "pstate \<Rightarrow> frame list \<Rightarrow> token \<Rightarrow> (pstate \<times> frame list) option" where
  "step WantValue st t = startValue t st"
| "step WantValueOrClose st t = (if t = TRBracket then closeArray st else startValue t st)"
| "step WantKeyOrClose st t = (if t = TRBrace then closeObject st else startMember t st)"
| "step WantKey st t = startMember t st"
| "step WantColon st t = (if t = TColon then Some (WantValue, st) else None)"
| "step AfterValue st t =
     (case st of
        FArray acc # _ \<Rightarrow>
          (if t = TComma then Some (WantValue, st)
           else if t = TRBracket then closeArray st else None)
      | FObject acc # _ \<Rightarrow>
          (if t = TComma then Some (WantKey, st)
           else if t = TRBrace then closeObject st else None)
      | _ \<Rightarrow> None)"
| "step (Done v) st t = None"

fun run :: "pstate \<Rightarrow> frame list \<Rightarrow> token list \<Rightarrow> json option" where
  "run p st [] = (case p of Done v \<Rightarrow> Some v | _ \<Rightarrow> None)"
| "run p st (t # ts) = (case step p st t of None \<Rightarrow> None | Some (p', st') \<Rightarrow> run p' st' ts)"

definition JSON_parse :: "string \<Rightarrow> json option" where
  "JSON_parse text = (case lex text of None \<Rightarrow> None | Some toks \<Rightarrow> run WantValue [] toks)"

lemmas json_eval = lexToken_def lexPunct_def lexLiteral_def isJsonWs_def isDigit_def
  lexUnsigned_def lexInt_def lexExpDigits_def digitsValue_def digitVal_def toNumber_def
  scale10_def consChar_def JSON_parse_def simpleEscape_def hexVal_def

section \<open>The program\<close>

subsection \<open>Results, errors, and what a request can change\<close>

text \<open>
  The object every path returns. \<^verbatim>\<open>summary\<close> holds strings on the heuristic and mock
  paths and whatever the provider's array holds on the strict path, so its entries are JSON
  values. \<^verbatim>\<open>fallbackReason\<close> is \<open>None\<close> when the object has no such property.
\<close>

record analysisResult =
  isOriginal :: bool
  confidence :: jsnum
  summary :: "json list"
  analysisMethod :: string
  fallbackReason :: "string option"

text \<open>
  A thrown value. The program reads only its \<^verbatim>\<open>message\<close>, so an error is its message,
  whatever its class.
\<close>

datatype js_error = Error (message: string)

text \<open>
  What a request changes: the result objects allocated so far (an object's address is its
  index) and the URLs requested with \<^verbatim>\<open>fetch\<close>, oldest first.
\<close>

record state =
  heap :: "analysisResult list"
  fetched :: "string list"

definition newObject :: "analysisResult \<Rightarrow> state \<Rightarrow> nat \<times> state" where
  "newObject v s = (length (heap s), s\<lparr>heap := heap s @ [v]\<rparr>)"

text \<open>An assignment to a property of the object at address \<open>p\<close>.\<close>

definition assign :: "nat \<Rightarrow> (analysisResult \<Rightarrow> analysisResult) \<Rightarrow> state \<Rightarrow> state" where
  "assign p f s = s\<lparr>heap := (heap s)[p := f (heap s ! p)]\<rparr>"

text \<open>
  A response of \<^verbatim>\<open>fetch\<close>: its status, and what \<^verbatim>\<open>response.text()\<close> and
  \<^verbatim>\<open>response.json()\<close> resolve to or reject with. \<^verbatim>\<open>response.ok\<close> is node-fetch's getter.
\<close>

record response =
  status :: nat
  bodyText :: "js_error + string"
  bodyJson :: "js_error + json"

definition ok :: "response \<Rightarrow> bool" where
  "ok r = (200 \<le> status r \<and> status r < 300)"

text \<open>
  What the program reads from outside: the two keys of the environment (\<open>None\<close> when the
  variable is not set), the network (the outcome of \<^verbatim>\<open>fetch\<close> for a URL, the image data and
  the media type), the two values of \<^verbatim>\<open>Math.random()\<close> that one call of
  \<^verbatim>\<open>performMockAnalysis\<close> draws, and the wording of the errors that the engine itself
  throws (for the expression that fails), which the source does not fix.
\<close>

record env =
  CLAUDE_KEY :: "string option"
  DEEPSEEK_KEY :: "string option"
  network :: "string \<Rightarrow> json \<Rightarrow> string \<Rightarrow> js_error + response"
  random1 :: rat
  random2 :: rat
  typeErrorMessage :: "string \<Rightarrow> string"
  syntaxErrorMessage :: "string \<Rightarrow> string"

definition TypeError :: "env \<Rightarrow> string \<Rightarrow> js_error" where
  "TypeError e expr = Error (typeErrorMessage e expr)"

text \<open>\<^verbatim>\<open>await fetch(url, ...)\<close>: the request is recorded, the network answers.\<close>

definition fetch :: "env \<Rightarrow> string \<Rightarrow> json \<Rightarrow> string \<Rightarrow> state \<Rightarrow> (js_error + response) \<times> state" where
  "fetch e url base64Data mediaType s =
     (network e url base64Data mediaType, s\<lparr>fetched := fetched s @ [url]\<rparr>)"

subsection \<open>\<^verbatim>\<open>performMockAnalysis\<close>\<close>

definition authenticSummary :: "json list" where
  "authenticSummary =
     [JString ''Natural texture patterns detected throughout the image'',
      JString ''Lighting and shadow consistency appears authentic'',
      JString ''No obvious AI generation artifacts found'',
      JString ''Image metadata suggests original capture'']"

definition aiSummary :: "json list" where
  "aiSummary =
     [JString ''Unusual smoothness patterns detected in specific regions'',
      JString ''Inconsistent noise distribution across the image'',
      JString ''Texture repetition patterns typical of AI generation'',
      JString ''Subtle artifacts found in fine details'']"

definition performMockAnalysis :: "env \<Rightarrow> state \<Rightarrow> nat \<times> state" where
  "performMockAnalysis e s =
     (let isOriginal' = greaterThan (Finite (random1 e)) (1 / 2);
          confidence' = num_plus (Math_floor (num_times (Finite (random2 e)) 21)) 75;
          summary' = (if isOriginal' then authenticSummary else aiSummary)
      in newObject
           \<lparr>isOriginal = isOriginal', confidence = confidence', summary = summary',
            analysisMethod = ''mock'', fallbackReason = None\<rparr> s)"

subsection \<open>The strict parser (the inner \<^verbatim>\<open>try\<close> of both provider functions)\<close>

text \<open>
  A regular expression is modelled by the number of code units it matches at the start of a
  text, 0 when it does not match there. \<^verbatim>\<open>/```json\n?/i\<close> and \<^verbatim>\<open>/```\n?/\<close>:
\<close>

definition newlineAt :: "nat \<Rightarrow> string \<Rightarrow> nat" where
  "newlineAt n s = (if n < length s \<and> s ! n = CHR 0x0A then 1 else 0)"

definition matchFenceJson :: "string \<Rightarrow> nat" where
  "matchFenceJson s =
     (if toLowerCase (take 7 s) = [CHR 0x60, CHR 0x60, CHR 0x60, CHR ''j'', CHR ''s'', CHR ''o'', CHR ''n'']
      then 7 + newlineAt 7 s else 0)"

definition matchFence :: "string \<Rightarrow> nat" where
  "matchFence s =
     (if take 3 s = [CHR 0x60, CHR 0x60, CHR 0x60] then 3 + newlineAt 3 s else 0)"

text \<open>
  \<^verbatim>\<open>s.replace(re, '')\<close> with the flag \<^verbatim>\<open>g\<close>: every match is removed, from left to right, the
  search going on after each match.
\<close>

fun removeAll :: "(string \<Rightarrow> nat) \<Rightarrow> string \<Rightarrow> string" where
  "removeAll m [] = []"
| "removeAll m (c # cs) =
     (case m (c # cs) of
        0 \<Rightarrow> c # removeAll m cs
      | Suc k \<Rightarrow> removeAll m (drop k cs))"

text \<open>
  \<^verbatim>\<open>s.match(/\{[\s\S]*\}/)\<close>: from the first opening brace to the last closing brace
  after it; \<open>None\<close> when there is no such pair.
\<close>

definition matchBraces :: "string \<Rightarrow> string option" where
  "matchBraces s =
     (let fromOpen = dropWhile (\<lambda>c. c \<noteq> CHR ''{'') s
      in if fromOpen = [] then None
         else (let inner = rev (dropWhile (\<lambda>c. c \<noteq> CHR ''}'') (rev (tl fromOpen)))
               in if inner = [] then None else Some (CHR ''{'' # inner)))"

definition threeBackticks :: string where
  "threeBackticks = [CHR 0x60, CHR 0x60, CHR 0x60]"

text \<open>The text handed to \<^verbatim>\<open>JSON.parse\<close>.\<close>

definition extractJsonText :: "string \<Rightarrow> string" where
  "extractJsonText textContent =
     (let jsonText = trim textContent;
          jsonText = (if includes_str jsonText threeBackticks
                      then trim (removeAll matchFence (removeAll matchFenceJson jsonText))
                      else jsonText)
      in (case matchBraces jsonText of Some m \<Rightarrow> m | None \<Rightarrow> jsonText))"

text \<open>
  The three checks on the parsed value and the result built from it. Reading a property of
  \<^verbatim>\<open>null\<close> throws; any other value that is not an object has no property.
\<close>

definition validated :: "env \<Rightarrow> string \<Rightarrow> json \<Rightarrow> js_error + analysisResult" where
  "validated e method parsed =
     (if parsed = JNull then Inl (TypeError e ''parsed.isOriginal'')
      else (case getProp parsed ''isOriginal'' of
              Some (JBool b) \<Rightarrow>
                (case getProp parsed ''confidence'' of
                   Some (JNumber n) \<Rightarrow>
                     (case getProp parsed ''observations'' of
                        Some (JArray observations) \<Rightarrow>
                          Inr \<lparr>isOriginal = b,
                               confidence = Math_min (Finite 100) (Math_max (Finite 0) (Math_round n)),
                               summary = observations,
                               analysisMethod = method,
                               fallbackReason = None\<rparr>
                      | _ \<Rightarrow> Inl (Error ''observations must be array''))
                 | _ \<Rightarrow> Inl (Error ''confidence must be number''))
            | _ \<Rightarrow> Inl (Error ''isOriginal must be boolean'')))"

definition parseStrict :: "env \<Rightarrow> string \<Rightarrow> string \<Rightarrow> js_error + analysisResult" where
  "parseStrict e method textContent =
     (let jsonText = extractJsonText textContent
      in (case JSON_parse jsonText of
            None \<Rightarrow> Inl (Error (syntaxErrorMessage e jsonText))
          | Some parsed \<Rightarrow> validated e method parsed))"

subsection \<open>The heuristic extractors (the inner \<^verbatim>\<open>catch\<close> of each provider function)\<close>

text \<open>
  \<^verbatim>\<open>line.replace(/^[-*\<bullet>\d.)\]]+\s*/, '')\<close>: a leading run of bullet and numbering
  characters and the white space after it are removed. The bullet U+2022 of the class is not
  a character of this model.
\<close>

definition isBulletChar :: "char \<Rightarrow> bool" where
  "isBulletChar c =
     (c = CHR ''-'' \<or> c = CHR ''*'' \<or> isDigit c \<or> c = CHR ''.'' \<or> c = CHR '')'' \<or> c = CHR '']'')"

definition stripBullet :: "string \<Rightarrow> string" where
  "stripBullet line =
     (if takeWhile isBulletChar line = [] then line
      else dropWhile isWhiteSpace (dropWhile isBulletChar line))"

definition extractObservations :: "string \<Rightarrow> string list" where
  "extractObservations textContent =
     (let lines = filter (\<lambda>line. length (trim line) > 10) (split_str (CHR 0x0A) textContent)
      in map (\<lambda>line. trim (stripBullet line)) (take 4 lines))"

definition claudeDefaultSummary :: "json list" where
  "claudeDefaultSummary =
     [JString ''Analysis completed but response format was unexpected'',
      JString ''Technical analysis performed on image structure'',
      JString ''Review recommended for accuracy verification'',
      JString ''Consider manual inspection for confirmation'']"

definition deepseekDefaultSummary :: "json list" where
  "deepseekDefaultSummary =
     [JString ''Analysis completed with limited data'',
      JString ''Technical pattern analysis performed'',
      JString ''Manual review recommended for accuracy'',
      JString ''Consider additional verification methods'']"

definition claudeHeuristic :: "string \<Rightarrow> analysisResult" where
  "claudeHeuristic textContent =
     (let textLower = toLowerCase textContent;
          isOriginal' = (\<not> includes_str textLower ''ai-generated'' \<and>
                         \<not> includes_str textLower ''artificial'' \<and>
                         \<not> includes_str textLower ''generated'' \<and>
                         \<not> includes_str textLower ''fake'');
          observations = extractObservations textContent
      in \<lparr>isOriginal = isOriginal',
          confidence = Finite 70,
          summary = (if length observations > 0 then map JString observations
                     else claudeDefaultSummary),
          analysisMethod = ''claude-api-fallback'',
          fallbackReason = None\<rparr>)"

definition deepseekHeuristic :: "string \<Rightarrow> analysisResult" where
  "deepseekHeuristic textContent =
     (let textLower = toLowerCase textContent;
          isOriginal' = (\<not> includes_str textLower ''ai-generated'' \<and>
                         \<not> includes_str textLower ''artificial'' \<and>
                         \<not> includes_str textLower ''generated'');
          observations = extractObservations textContent
      in \<lparr>isOriginal = isOriginal',
          confidence = Finite 70,
          summary = (if length observations > 0 then map JString observations
                     else deepseekDefaultSummary),
          analysisMethod = ''deepseek-api-fallback'',
          fallbackReason = None\<rparr>)"

subsection \<open>The text of the provider's reply\<close>

text \<open>\<^verbatim>\<open>content.find(c => c.type === 'text')\<close>; reading \<^verbatim>\<open>type\<close> of \<^verbatim>\<open>null\<close> throws.\<close>

fun findText :: "env \<Rightarrow> json list \<Rightarrow> js_error + json option" where
  "findText e [] = Inr None"
| "findText e (c # cs) =
     (if c = JNull then Inl (TypeError e ''c.type: c is null'')
      else if getProp c ''type'' = Some (JString ''text'') then Inr (Some c)
      else findText e cs)"

text \<open>\<^verbatim>\<open>v?.name\<close> and \<^verbatim>\<open>v?.[0]\<close>: \<^verbatim>\<open>undefined\<close> when \<open>v\<close> is \<^verbatim>\<open>null\<close> or \<^verbatim>\<open>undefined\<close>.\<close>

fun optProp :: "json option \<Rightarrow> string \<Rightarrow> json option" where
  "optProp None name = None"
| "optProp (Some JNull) name = None"
| "optProp (Some v) name = getProp v name"

fun optIndex0 :: "json option \<Rightarrow> json option" where
  "optIndex0 None = None"
| "optIndex0 (Some JNull) = None"
| "optIndex0 (Some v) = getIndex0 v"

text \<open>\<^verbatim>\<open>v || ''\<close>.\<close>

definition orEmpty :: "json option \<Rightarrow> json" where
  "orEmpty v = (case v of None \<Rightarrow> JString [] | Some x \<Rightarrow> if falsy v then JString [] else x)"

text \<open>
  \<^verbatim>\<open>textContent.substring(0, 150)\<close>, in the log line before the inner \<^verbatim>\<open>try\<close>: it throws
  when \<^verbatim>\<open>textContent\<close> is not a string, and is the first use of \<^verbatim>\<open>textContent\<close>.
\<close>

definition asString :: "env \<Rightarrow> json \<Rightarrow> js_error + string" where
  "asString e v =
     (case v of
        JString t \<Rightarrow> Inr t
      | _ \<Rightarrow> Inl (TypeError e ''textContent.substring is not a function''))"

definition claudeTextContent :: "env \<Rightarrow> json \<Rightarrow> js_error + string" where
  "claudeTextContent e data =
     (if data = JNull then Inl (TypeError e ''data.content: data is null'')
      else (case getProp data ''content'' of
              None \<Rightarrow> Inl (TypeError e ''data.content.find: data.content is undefined'')
            | Some JNull \<Rightarrow> Inl (TypeError e ''data.content.find: data.content is null'')
            | Some (JArray content) \<Rightarrow>
                (case findText e content of
                   Inl err \<Rightarrow> Inl err
                 | Inr found \<Rightarrow> asString e (orEmpty (optProp found ''text'')))
            | Some _ \<Rightarrow> Inl (TypeError e ''data.content.find is not a function'')))"

definition deepseekTextContent :: "env \<Rightarrow> json \<Rightarrow> js_error + string" where
  "deepseekTextContent e data =
     (if data = JNull then Inl (TypeError e ''data.choices: data is null'')
      else asString e
             (orEmpty (optProp (optProp (optIndex0 (getProp data ''choices'')) ''message'')
                         ''content'')))"

subsection \<open>\<^verbatim>\<open>analyzeWithClaude\<close> and \<^verbatim>\<open>analyzeWithDeepSeek\<close>\<close>

definition claudeUrl :: string where
  "claudeUrl = ''https://api.anthropic.com/v1/messages''"

definition deepseekUrl :: string where
  "deepseekUrl = ''https://api.deepseek.com/v1/chat/completions''"

text \<open>
  The outer \<^verbatim>\<open>try\<close> block: the error it throws, or the object literal of the
  \<^verbatim>\<open>return\<close> statement it reaches.
\<close>

definition claudeTry :: "env \<Rightarrow> json \<Rightarrow> string \<Rightarrow> state \<Rightarrow> (js_error + analysisResult) \<times> state" where
  "claudeTry e base64Data mediaType s =
     (case fetch e claudeUrl base64Data mediaType s of
        (Inl err, s1) \<Rightarrow> (Inl err, s1)
      | (Inr response, s1) \<Rightarrow>
          (if \<not> ok response then
             (case bodyText response of
                Inl err \<Rightarrow> (Inl err, s1)
              | Inr errorText \<Rightarrow>
                  (Inl (Error (''Claude API error: '' @ decimal (status response) @ '' - '' @ errorText)),
                   s1))
           else
             (case bodyJson response of
                Inl err \<Rightarrow> (Inl err, s1)
              | Inr data \<Rightarrow>
                  (case claudeTextContent e data of
                     Inl err \<Rightarrow> (Inl err, s1)
                   | Inr textContent \<Rightarrow>
                       (case parseStrict e ''claude-api'' textContent of
                          Inr result \<Rightarrow> (Inr result, s1)
                        | Inl parseErr \<Rightarrow> (Inr (claudeHeuristic textContent), s1))))))"

definition deepseekTry :: "env \<Rightarrow> json \<Rightarrow> string \<Rightarrow> state \<Rightarrow> (js_error + analysisResult) \<times> state" where
  "deepseekTry e base64Data mediaType s =
     (case fetch e deepseekUrl base64Data mediaType s of
        (Inl err, s1) \<Rightarrow> (Inl err, s1)
      | (Inr response, s1) \<Rightarrow>
          (if \<not> ok response then
             (case bodyText response of
                Inl err \<Rightarrow> (Inl err, s1)
              | Inr errorText \<Rightarrow>
                  (Inl (Error (''DeepSeek API error: '' @ decimal (status response) @ '' - '' @ errorText)),
                   s1))
           else
             (case bodyJson response of
                Inl err \<Rightarrow> (Inl err, s1)
              | Inr data \<Rightarrow>
                  (case deepseekTextContent e data of
                     Inl err \<Rightarrow> (Inl err, s1)
                   | Inr textContent \<Rightarrow>
                       (case parseStrict e ''deepseek-api'' textContent of
                          Inr result \<Rightarrow> (Inr result, s1)
                        | Inl parseErr \<Rightarrow> (Inr (deepseekHeuristic textContent), s1))))))"

text \<open>
  The outer \<^verbatim>\<open>catch\<close> block, the same statements in both functions: a mock result is made,
  then two of its properties are assigned.
\<close>

definition mockFallback :: "env \<Rightarrow> js_error \<Rightarrow> state \<Rightarrow> nat \<times> state" where
  "mockFallback e apiError s =
     (case performMockAnalysis e s of
        (mockResult, s1) \<Rightarrow>
          (let s2 = assign mockResult (\<lambda>r. r\<lparr>analysisMethod := ''mock-fallback''\<rparr>) s1;
               s3 = assign mockResult (\<lambda>r. r\<lparr>fallbackReason := Some (message apiError)\<rparr>) s2
           in (mockResult, s3)))"

text \<open>
  A provider function returns the address of its result, or throws (\<open>Inl\<close>); the state goes
  on in both cases.
\<close>

definition analyzeWithClaude :: "env \<Rightarrow> json \<Rightarrow> string \<Rightarrow> state \<Rightarrow> (js_error + nat) \<times> state" where
  "analyzeWithClaude e base64Data mediaType s =
     (case claudeTry e base64Data mediaType s of
        (Inr result, s1) \<Rightarrow> (case newObject result s1 of (p, s2) \<Rightarrow> (Inr p, s2))
      | (Inl apiError, s1) \<Rightarrow> (case mockFallback e apiError s1 of (p, s2) \<Rightarrow> (Inr p, s2)))"

definition analyzeWithDeepSeek :: "env \<Rightarrow> json \<Rightarrow> string \<Rightarrow> state \<Rightarrow> (js_error + nat) \<times> state" where
  "analyzeWithDeepSeek e base64Data mediaType s =
     (case deepseekTry e base64Data mediaType s of
        (Inr result, s1) \<Rightarrow> (case newObject result s1 of (p, s2) \<Rightarrow> (Inr p, s2))
      | (Inl apiError, s1) \<Rightarrow> (case mockFallback e apiError s1 of (p, s2) \<Rightarrow> (Inr p, s2)))"

subsection \<open>The handler of \<^verbatim>\<open>POST /analyze\<close>\<close>

datatype http_response = Json200 analysisResult | Error400 | Error500 string

definition isLetter :: "char \<Rightarrow> bool" where
  "isLetter c = (c \<in> set ''abcdefghijklmnopqrstuvwxyzABCDEFGHIJKLMNOPQRSTUVWXYZ'')"

text \<open>\<^verbatim>\<open>header.match(/data:(image\/[a-zA-Z]+);/)\<close>: the first group of the leftmost match.\<close>

fun mimeMatch :: "string \<Rightarrow> string option" where
  "mimeMatch [] = None"
| "mimeMatch (c # cs) =
     (if prefix ''data:image/'' (c # cs) \<and>
         takeWhile isLetter (drop 10 cs) \<noteq> [] \<and>
         prefix '';'' (dropWhile isLetter (drop 10 cs))
      then Some (''image/'' @ takeWhile isLetter (drop 10 cs))
      else mimeMatch cs)"

text \<open>
  The first statements of the handler's \<^verbatim>\<open>try\<close>: the image data and the media type. Only
  a string and an array have \<^verbatim>\<open>includes\<close>, only a string has \<^verbatim>\<open>split\<close>.
\<close>

definition imageData :: "env \<Rightarrow> json \<Rightarrow> js_error + json \<times> string" where
  "imageData e image' =
     (case image' of
        JString str \<Rightarrow>
          (if includes_str str '','' then
             (case split_str (CHR '','') str of
                header # second # _ \<Rightarrow>
                  Inr (JString second,
                       (case mimeMatch header of Some m \<Rightarrow> m | None \<Rightarrow> ''image/jpeg''))
              | _ \<Rightarrow> Inl (TypeError e ''base64Data.length: base64Data is undefined''))
           else Inr (image', ''image/jpeg''))
      | JArray xs \<Rightarrow>
          (if JString '','' \<in> set xs then Inl (TypeError e ''image.split is not a function'')
           else Inr (image', ''image/jpeg''))
      | _ \<Rightarrow> Inl (TypeError e ''image.includes is not a function''))"

text \<open>A key is configured when the variable is set and not empty.\<close>

definition configured :: "string option \<Rightarrow> bool" where
  "configured key = (case key of None \<Rightarrow> False | Some k \<Rightarrow> k \<noteq> [])"

text \<open>The choice of the analysis: Claude, then DeepSeek, then the mock.\<close>

definition analyze :: "env \<Rightarrow> json \<Rightarrow> string \<Rightarrow> state \<Rightarrow> (js_error + nat) \<times> state" where
  "analyze e base64Data mediaType s =
     (if configured (CLAUDE_KEY e) then analyzeWithClaude e base64Data mediaType s
      else if configured (DEEPSEEK_KEY e) then analyzeWithDeepSeek e base64Data mediaType s
      else (case performMockAnalysis e s of (p, s1) \<Rightarrow> (Inr p, s1)))"

definition analyzeHandler :: "env \<Rightarrow> json option \<Rightarrow> state \<Rightarrow> http_response \<times> state" where
  "analyzeHandler e image' s =
     (case image' of
        None \<Rightarrow> (Error400, s)
      | Some img \<Rightarrow>
          (if falsy image' then (Error400, s)
           else (case imageData e img of
                   Inl err \<Rightarrow> (Error500 (message err), s)
                 | Inr (base64Data, mediaType) \<Rightarrow>
                     (case analyze e base64Data mediaType s of
                        (Inl err, s1) \<Rightarrow> (Error500 (message err), s1)
                      | (Inr result, s1) \<Rightarrow> (Json200 (heap s1 ! result), s1)))))"

section \<open>Verification\<close>

subsection \<open>Concrete environments and replies, for the examples\<close>

definition exampleEnv :: "string option \<Rightarrow> string option \<Rightarrow> js_error + response \<Rightarrow> rat \<Rightarrow> rat \<Rightarrow> env" where
  "exampleEnv claudeKey deepseekKey outcome r1 r2 =
     \<lparr>CLAUDE_KEY = claudeKey, DEEPSEEK_KEY = deepseekKey,
      network = (\<lambda>url base64Data mediaType. outcome),
      random1 = r1, random2 = r2,
      typeErrorMessage = (\<lambda>expr. ''TypeError: '' @ expr),
      syntaxErrorMessage = (\<lambda>t. ''SyntaxError'')\<rparr>"

definition claudeReply :: "string \<Rightarrow> js_error + response" where
  "claudeReply t =
     Inr \<lparr>status = 200, bodyText = Inr [],
          bodyJson = Inr (JObject [(''content'',
                       JArray [JObject [(''type'', JString ''text''), (''text'', JString t)]])])\<rparr>"

definition deepseekReply :: "string \<Rightarrow> js_error + response" where
  "deepseekReply t =
     Inr \<lparr>status = 200, bodyText = Inr [],
          bodyJson = Inr (JObject [(''choices'',
                       JArray [JObject [(''message'', JObject [(''content'', JString t)])]])])\<rparr>"

definition emptyState :: state where
  "emptyState = \<lparr>heap = [], fetched = []\<rparr>"

subsection \<open>Facts about the heap and about numbers\<close>

lemma newObject_heap:
  "newObject v s = (p, s') \<Longrightarrow>
     p = length (heap s) \<and> heap s' = heap s @ [v] \<and> heap s' ! p = v \<and> fetched s' = fetched s"
  by (auto simp: newObject_def)

lemma assign_heap:
  "p < length (heap s) \<Longrightarrow>
     heap (assign p f s) ! p = f (heap s ! p) \<and>
     length (heap (assign p f s)) = length (heap s) \<and>
     fetched (assign p f s) = fetched s"
  by (simp add: assign_def)



lemma clamp_range:
  "integerIn 0 100 (Math_min (Finite 100) (Math_max (Finite 0) (Math_round n)))"
proof (cases n)
  case (Finite q)
  have "min 100 (max 0 (of_int \<lfloor>q + 1 / 2\<rfloor> :: rat)) = of_int (min 100 (max 0 \<lfloor>q + 1 / 2\<rfloor>))"
    by (simp add: min_def max_def)
  then show ?thesis
    using Finite by (simp add: integerIn_def)
next
  case PosInfinity
  then show ?thesis by (simp add: integerIn_def)
next
  case NegInfinity
  then show ?thesis by (simp add: integerIn_def)
qed

lemma performMockAnalysis_result:
  "performMockAnalysis e s = (p, s') \<Longrightarrow>
     p = length (heap s) \<and>
     heap s' = heap s @ [heap s' ! p] \<and>
     fetched s' = fetched s \<and>
     isOriginal (heap s' ! p) = (random1 e > 1 / 2) \<and>
     confidence (heap s' ! p) = num_plus (Math_floor (num_times (Finite (random2 e)) 21)) 75 \<and>
     summary (heap s' ! p) = (if random1 e > 1 / 2 then authenticSummary else aiSummary) \<and>
     analysisMethod (heap s' ! p) = ''mock'' \<and>
     fallbackReason (heap s' ! p) = None"
  by (auto simp: performMockAnalysis_def Let_def newObject_def)

subsection \<open>What each path returns\<close>

lemma mockFallback_result:
  assumes "mockFallback e apiError s = (p, s')"
  shows "p = length (heap s) \<and>
         heap s' = heap s @ [heap s' ! p] \<and>
         fetched s' = fetched s \<and>
         isOriginal (heap s' ! p) = (random1 e > 1 / 2) \<and>
         confidence (heap s' ! p) = num_plus (Math_floor (num_times (Finite (random2 e)) 21)) 75 \<and>
         summary (heap s' ! p) = (if random1 e > 1 / 2 then authenticSummary else aiSummary) \<and>
         analysisMethod (heap s' ! p) = ''mock-fallback'' \<and>
         fallbackReason (heap s' ! p) = Some (message apiError)"
  using assms
  by (auto simp: mockFallback_def performMockAnalysis_def Let_def newObject_def assign_def)

lemma fetch_state: "fetch e url b m s = (r, s1) \<Longrightarrow> heap s1 = heap s \<and> fetched s1 = fetched s @ [url]"
  by (auto simp: fetch_def)

lemma claudeTry_state:
  "claudeTry e b m s = (r, s1) \<Longrightarrow> heap s1 = heap s \<and> fetched s1 = fetched s @ [claudeUrl]"
  by (auto simp: claudeTry_def fetch_def split: sum.splits if_splits)

lemma deepseekTry_state:
  "deepseekTry e b m s = (r, s1) \<Longrightarrow> heap s1 = heap s \<and> fetched s1 = fetched s @ [deepseekUrl]"
  by (auto simp: deepseekTry_def fetch_def split: sum.splits if_splits)

lemma validated_result:
  "validated e method parsed = Inr r \<Longrightarrow>
     (\<exists>n. getProp parsed ''confidence'' = Some (JNumber n) \<and>
          confidence r = Math_min (Finite 100) (Math_max (Finite 0) (Math_round n))) \<and>
     getProp parsed ''isOriginal'' = Some (JBool (isOriginal r)) \<and>
     getProp parsed ''observations'' = Some (JArray (summary r)) \<and>
     analysisMethod r = method \<and> fallbackReason r = None"
  by (auto simp: validated_def split: if_splits option.splits json.splits)

lemma parseStrict_result:
  assumes "parseStrict e method t = Inr r"
  shows "integerIn 0 100 (confidence r) \<and> analysisMethod r = method \<and> fallbackReason r = None"
proof -
  from assms obtain parsed where v: "validated e method parsed = Inr r"
    by (auto simp: parseStrict_def Let_def split: option.splits)
  from validated_result[OF v] obtain n
    where c: "confidence r = Math_min (Finite 100) (Math_max (Finite 0) (Math_round n))"
      and m: "analysisMethod r = method" "fallbackReason r = None"
    by blast
  from clamp_range[of n] c m show ?thesis by simp
qed

lemma claudeHeuristic_fields:
  "confidence (claudeHeuristic t) = Finite 70 \<and>
   analysisMethod (claudeHeuristic t) = ''claude-api-fallback'' \<and>
   fallbackReason (claudeHeuristic t) = None \<and>
   isOriginal (claudeHeuristic t) =
     (\<not> includes_str (toLowerCase t) ''ai-generated'' \<and>
      \<not> includes_str (toLowerCase t) ''artificial'' \<and>
      \<not> includes_str (toLowerCase t) ''generated'' \<and>
      \<not> includes_str (toLowerCase t) ''fake'')"
  by (simp add: claudeHeuristic_def Let_def)

lemma deepseekHeuristic_fields:
  "confidence (deepseekHeuristic t) = Finite 70 \<and>
   analysisMethod (deepseekHeuristic t) = ''deepseek-api-fallback'' \<and>
   fallbackReason (deepseekHeuristic t) = None \<and>
   isOriginal (deepseekHeuristic t) =
     (\<not> includes_str (toLowerCase t) ''ai-generated'' \<and>
      \<not> includes_str (toLowerCase t) ''artificial'' \<and>
      \<not> includes_str (toLowerCase t) ''generated'')"
  by (simp add: deepseekHeuristic_def Let_def)

lemma integerIn_70: "integerIn 0 100 (Finite 70)"
  by (simp add: integerIn_def)


text \<open>
  The result of the outer \<^verbatim>\<open>try\<close> of either provider function, when it returns one: a
  strict result or a heuristic result.
\<close>

lemma claudeTry_result:
  "claudeTry e b m s = (Inr r, s1) \<Longrightarrow>
     integerIn 0 100 (confidence r) \<and> fallbackReason r = None \<and>
     (analysisMethod r = ''claude-api'' \<or> analysisMethod r = ''claude-api-fallback'')"
  using parseStrict_result[of e "''claude-api''" _ r] claudeHeuristic_fields integerIn_70
  by (auto simp: claudeTry_def fetch_def split: sum.splits if_splits)

lemma deepseekTry_result:
  "deepseekTry e b m s = (Inr r, s1) \<Longrightarrow>
     integerIn 0 100 (confidence r) \<and> fallbackReason r = None \<and>
     (analysisMethod r = ''deepseek-api'' \<or> analysisMethod r = ''deepseek-api-fallback'')"
  using parseStrict_result[of e "''deepseek-api''" _ r] deepseekHeuristic_fields integerIn_70
  by (auto simp: deepseekTry_def fetch_def split: sum.splits if_splits)

text \<open>A provider function always returns an object; it is a fresh one.\<close>

lemma analyzeWithClaude_returns:
  "\<exists>p s'. analyzeWithClaude e b m s = (Inr p, s')"
  by (auto simp: analyzeWithClaude_def split: prod.splits sum.splits)

lemma analyzeWithDeepSeek_returns:
  "\<exists>p s'. analyzeWithDeepSeek e b m s = (Inr p, s')"
  by (auto simp: analyzeWithDeepSeek_def split: prod.splits sum.splits)

lemma analyzeWithClaude_cases:
  assumes "analyzeWithClaude e b m s = (res, s')"
  shows "\<exists>p. res = Inr p \<and> p = length (heap s) \<and> heap s' = heap s @ [heap s' ! p] \<and>
           fetched s' = fetched s @ [claudeUrl] \<and>
           ((\<exists>s1. claudeTry e b m s = (Inr (heap s' ! p), s1)) \<or>
            (\<exists>apiError s1. claudeTry e b m s = (Inl apiError, s1) \<and>
               mockFallback e apiError s1 = (p, s')))"
proof (cases "claudeTry e b m s")
  case (Pair r s1)
  note st = claudeTry_state[OF Pair]
  show ?thesis
  proof (cases r)
    case (Inr result)
    with assms Pair st show ?thesis
      by (auto simp: analyzeWithClaude_def newObject_def)
  next
    case (Inl apiError)
    obtain p s2 where mf: "mockFallback e apiError s1 = (p, s2)" by (cases "mockFallback e apiError s1")
    from mockFallback_result[OF mf] assms Pair Inl mf st show ?thesis
      by (auto simp: analyzeWithClaude_def)
  qed
qed

lemma analyzeWithDeepSeek_cases:
  assumes "analyzeWithDeepSeek e b m s = (res, s')"
  shows "\<exists>p. res = Inr p \<and> p = length (heap s) \<and> heap s' = heap s @ [heap s' ! p] \<and>
           fetched s' = fetched s @ [deepseekUrl] \<and>
           ((\<exists>s1. deepseekTry e b m s = (Inr (heap s' ! p), s1)) \<or>
            (\<exists>apiError s1. deepseekTry e b m s = (Inl apiError, s1) \<and>
               mockFallback e apiError s1 = (p, s')))"
proof (cases "deepseekTry e b m s")
  case (Pair r s1)
  note st = deepseekTry_state[OF Pair]
  show ?thesis
  proof (cases r)
    case (Inr result)
    with assms Pair st show ?thesis
      by (auto simp: analyzeWithDeepSeek_def newObject_def)
  next
    case (Inl apiError)
    obtain p s2 where mf: "mockFallback e apiError s1 = (p, s2)" by (cases "mockFallback e apiError s1")
    from mockFallback_result[OF mf] assms Pair Inl mf st show ?thesis
      by (auto simp: analyzeWithDeepSeek_def)
  qed
qed

subsection \<open>The handler, and facts about every result\<close>

lemma analyzeHandler_Json200:
  "analyzeHandler e image' s = (Json200 r, s') \<Longrightarrow>
     \<exists>img b m p. image' = Some img \<and> imageData e img = Inr (b, m) \<and>
        analyze e b m s = (Inr p, s') \<and> r = heap s' ! p"
  by (auto simp: analyzeHandler_def split: option.splits if_splits sum.splits prod.splits)

lemma analyze_mock:
  assumes "\<not> configured (CLAUDE_KEY e)" "\<not> configured (DEEPSEEK_KEY e)"
      and "analyze e b m s = (res, s')"
  shows "\<exists>p. res = Inr p \<and> performMockAnalysis e s = (p, s')"
  using assms by (auto simp: analyze_def split: prod.splits)

lemma mockFallback_fields:
  assumes "mockFallback e apiError s = (p, s')"
  shows "confidence (heap s' ! p) = num_plus (Math_floor (num_times (Finite (random2 e)) 21)) 75"
    and "analysisMethod (heap s' ! p) = ''mock-fallback''"
    and "fallbackReason (heap s' ! p) = Some (message apiError)"
  using mockFallback_result[OF assms] by blast+



subsection \<open>Examples, evaluated\<close>


definition freeTextReply :: string where
  "freeTextReply = ''This image shows clear AI-generated artifacts in the hands.''"

lemma exampleEnv_sel [simp]:
  "CLAUDE_KEY (exampleEnv ck dk outcome r1 r2) = ck"
  "DEEPSEEK_KEY (exampleEnv ck dk outcome r1 r2) = dk"
  "network (exampleEnv ck dk outcome r1 r2) url b m = outcome"
  "random1 (exampleEnv ck dk outcome r1 r2) = r1"
  "random2 (exampleEnv ck dk outcome r1 r2) = r2"
  "typeErrorMessage (exampleEnv ck dk outcome r1 r2) expr = ''TypeError: '' @ expr"
  by (simp_all add: exampleEnv_def)

lemma claudeReply_text:
  "claudeTextContent e (JObject [(''content'',
      JArray [JObject [(''type'', JString ''text''), (''text'', JString t)]])]) = Inr t"
  by (simp add: claudeTextContent_def orEmpty_def asString_def)

lemma deepseekReply_text:
  "deepseekTextContent e (JObject [(''choices'',
      JArray [JObject [(''message'', JObject [(''content'', JString t)])]])]) = Inr t"
  by (simp add: deepseekTextContent_def orEmpty_def asString_def)

lemma claudeTry_reply:
  "claudeTry (exampleEnv ck dk (claudeReply t) r1 r2) b m s =
     ((case parseStrict (exampleEnv ck dk (claudeReply t) r1 r2) ''claude-api'' t of
         Inr result \<Rightarrow> Inr result
       | Inl parseErr \<Rightarrow> Inr (claudeHeuristic t)),
      s\<lparr>fetched := fetched s @ [claudeUrl]\<rparr>)"
  by (simp add: claudeTry_def fetch_def ok_def claudeReply_def claudeReply_text split: sum.splits)

lemma deepseekTry_reply:
  "deepseekTry (exampleEnv ck dk (deepseekReply t) r1 r2) b m s =
     ((case parseStrict (exampleEnv ck dk (deepseekReply t) r1 r2) ''deepseek-api'' t of
         Inr result \<Rightarrow> Inr result
       | Inl parseErr \<Rightarrow> Inr (deepseekHeuristic t)),
      s\<lparr>fetched := fetched s @ [deepseekUrl]\<rparr>)"
  by (simp add: deepseekTry_def fetch_def ok_def deepseekReply_def deepseekReply_text split: sum.splits)

lemmas handler_eval =
  analyzeHandler_def imageData_def analyze_def configured_def analyzeWithClaude_def
  analyzeWithDeepSeek_def mockFallback_def performMockAnalysis_def newObject_def assign_def
  emptyState_def Let_def

lemmas strict_eval =
  parseStrict_def validated_def extractJsonText_def trim_def trimStart_def trimEnd_def
  isWhiteSpace_def threeBackticks_def matchBraces_def Let_def




section \<open>The claims\<close>

lemma performMockAnalysis_more:
  assumes "performMockAnalysis e s = (p, s')"
  shows "isOriginal (heap s' ! p) = (random1 e > 1 / 2)"
    and "summary (heap s' ! p) = (if random1 e > 1 / 2 then authenticSummary else aiSummary)"
    and "fetched s' = fetched s"
  using performMockAnalysis_result[OF assms] by blast+





subsection \<open>Failures of the provider call\<close>

lemma claudeTry_network_error:
  "network e claudeUrl b m = Inl err \<Longrightarrow>
     claudeTry e b m s = (Inl err, s\<lparr>fetched := fetched s @ [claudeUrl]\<rparr>)"
  by (simp add: claudeTry_def fetch_def)

lemma deepseekTry_network_error:
  "network e deepseekUrl b m = Inl err \<Longrightarrow>
     deepseekTry e b m s = (Inl err, s\<lparr>fetched := fetched s @ [deepseekUrl]\<rparr>)"
  by (simp add: deepseekTry_def fetch_def)

lemma claudeTry_http_error:
  "network e claudeUrl b m = Inr resp \<Longrightarrow> \<not> ok resp \<Longrightarrow> bodyText resp = Inr errorText \<Longrightarrow>
     claudeTry e b m s =
       (Inl (Error (''Claude API error: '' @ decimal (status resp) @ '' - '' @ errorText)),
        s\<lparr>fetched := fetched s @ [claudeUrl]\<rparr>)"
  by (simp add: claudeTry_def fetch_def)

lemma deepseekTry_http_error:
  "network e deepseekUrl b m = Inr resp \<Longrightarrow> \<not> ok resp \<Longrightarrow> bodyText resp = Inr errorText \<Longrightarrow>
     deepseekTry e b m s =
       (Inl (Error (''DeepSeek API error: '' @ decimal (status resp) @ '' - '' @ errorText)),
        s\<lparr>fetched := fetched s @ [deepseekUrl]\<rparr>)"
  by (simp add: deepseekTry_def fetch_def)

lemma analyzeWithClaude_caught:
  assumes "claudeTry e b m s = (Inl apiError, s1)"
  shows "\<exists>p s'. analyzeWithClaude e b m s = (Inr p, s') \<and>
           mockFallback e apiError s1 = (p, s') \<and>
           analysisMethod (heap s' ! p) = ''mock-fallback'' \<and>
           fallbackReason (heap s' ! p) = Some (message apiError) \<and>
           fetched s' = fetched s @ [claudeUrl]"
proof -
  obtain p s' where mf: "mockFallback e apiError s1 = (p, s')"
    by (cases "mockFallback e apiError s1")
  have a: "analyzeWithClaude e b m s = (Inr p, s')"
    using assms mf by (simp add: analyzeWithClaude_def)
  have "fetched s' = fetched s @ [claudeUrl]"
    using mockFallback_result[OF mf] claudeTry_state[OF assms] by simp
  with a mf mockFallback_fields(2,3)[OF mf] show ?thesis by blast
qed

lemma analyzeWithDeepSeek_caught:
  assumes "deepseekTry e b m s = (Inl apiError, s1)"
  shows "\<exists>p s'. analyzeWithDeepSeek e b m s = (Inr p, s') \<and>
           mockFallback e apiError s1 = (p, s') \<and>
           analysisMethod (heap s' ! p) = ''mock-fallback'' \<and>
           fallbackReason (heap s' ! p) = Some (message apiError) \<and>
           fetched s' = fetched s @ [deepseekUrl]"
proof -
  obtain p s' where mf: "mockFallback e apiError s1 = (p, s')"
    by (cases "mockFallback e apiError s1")
  have a: "analyzeWithDeepSeek e b m s = (Inr p, s')"
    using assms mf by (simp add: analyzeWithDeepSeek_def)
  have "fetched s' = fetched s @ [deepseekUrl]"
    using mockFallback_result[OF mf] deepseekTry_state[OF assms] by simp
  with a mf mockFallback_fields(2,3)[OF mf] show ?thesis by blast
qed

lemma analyzeWithClaude_reason_iff:
  assumes "analyzeWithClaude e b m s = (Inr p, s')"
  shows "fallbackReason (heap s' ! p) \<noteq> None \<longleftrightarrow> analysisMethod (heap s' ! p) = ''mock-fallback''"
proof -
  from analyzeWithClaude_cases[OF assms]
  consider (returned) s1 where "claudeTry e b m s = (Inr (heap s' ! p), s1)"
    | (caught) apiError s1 where "mockFallback e apiError s1 = (p, s')"
    by auto
  then show ?thesis
  proof cases
    case returned
    from claudeTry_result[OF this] show ?thesis by auto
  next
    case caught
    from mockFallback_fields(2,3)[OF this] show ?thesis by simp
  qed
qed

lemma analyzeWithDeepSeek_reason_iff:
  assumes "analyzeWithDeepSeek e b m s = (Inr p, s')"
  shows "fallbackReason (heap s' ! p) \<noteq> None \<longleftrightarrow> analysisMethod (heap s' ! p) = ''mock-fallback''"
proof -
  from analyzeWithDeepSeek_cases[OF assms]
  consider (returned) s1 where "deepseekTry e b m s = (Inr (heap s' ! p), s1)"
    | (caught) apiError s1 where "mockFallback e apiError s1 = (p, s')"
    by auto
  then show ?thesis
  proof cases
    case returned
    from deepseekTry_result[OF this] show ?thesis by auto
  next
    case caught
    from mockFallback_fields(2,3)[OF this] show ?thesis by simp
  qed
qed

definition networkDown :: "js_error + response" where
  "networkDown = Inl (Error ''socket hang up'')"

definition unauthorized :: "js_error + response" where
  "unauthorized = Inr \<lparr>status = 401, bodyText = Inr ''bad key'', bodyJson = Inl (Error ''invalid json'')\<rparr>"

lemma decimal_401: "decimal 401 = ''401''"
  by (simp add: decimal.simps digitChar_def)

lemma networkDown_example:
  "analyzeWithClaude (exampleEnv (Some ''key'') (Some ''key2'') networkDown (1 / 4) 0)
     (JString ''abc'') ''image/jpeg'' emptyState =
     (Inr 0,
      \<lparr>heap = [\<lparr>isOriginal = False, confidence = Finite 75, summary = aiSummary,
                analysisMethod = ''mock-fallback'', fallbackReason = Some ''socket hang up''\<rparr>],
       fetched = [claudeUrl]\<rparr>)"
  by (simp add: analyzeWithClaude_def claudeTry_network_error networkDown_def mockFallback_def
        performMockAnalysis_def newObject_def assign_def emptyState_def)

lemma unauthorized_example:
  "analyzeWithDeepSeek (exampleEnv None (Some ''key2'') unauthorized (1 / 4) 0)
     (JString ''abc'') ''image/jpeg'' emptyState =
     (Inr 0,
      \<lparr>heap = [\<lparr>isOriginal = False, confidence = Finite 75, summary = aiSummary,
                analysisMethod = ''mock-fallback'',
                fallbackReason = Some ''DeepSeek API error: 401 - bad key''\<rparr>],
       fetched = [deepseekUrl]\<rparr>)"
  by (simp add: analyzeWithDeepSeek_def deepseekTry_def fetch_def ok_def unauthorized_def
        decimal_401 mockFallback_def performMockAnalysis_def newObject_def assign_def
        emptyState_def)

text \<open>
  C1. \<^verbatim>\<open>analyzeWithClaude\<close> and \<^verbatim>\<open>analyzeWithDeepSeek\<close> never throw: each call returns a
  result object. Whenever the outer \<^verbatim>\<open>try\<close> of either function throws, and so when
  \<^verbatim>\<open>fetch\<close> rejects (a transport error) and when the status is not 2xx, the returned result
  is the mock result with \<^verbatim>\<open>analysisMethod\<close> \<^verbatim>\<open>mock-fallback\<close> and with \<^verbatim>\<open>fallbackReason\<close> the
  message of the error that was thrown. On every result these functions return,
  \<^verbatim>\<open>fallbackReason\<close> is present if and only if \<^verbatim>\<open>analysisMethod\<close> is \<^verbatim>\<open>mock-fallback\<close>.
\<close>

theorem provider_failure_gives_mock_fallback:
  "(\<exists>p s'. analyzeWithClaude e b m s = (Inr p, s')) \<and>
   (\<exists>p s'. analyzeWithDeepSeek e b m s = (Inr p, s')) \<and>
   (claudeTry e b m s = (Inl apiError, s1) \<longrightarrow>
      (\<exists>p s'. analyzeWithClaude e b m s = (Inr p, s') \<and>
         analysisMethod (heap s' ! p) = ''mock-fallback'' \<and>
         fallbackReason (heap s' ! p) = Some (message apiError))) \<and>
   (deepseekTry e b m s = (Inl apiError, s1) \<longrightarrow>
      (\<exists>p s'. analyzeWithDeepSeek e b m s = (Inr p, s') \<and>
         analysisMethod (heap s' ! p) = ''mock-fallback'' \<and>
         fallbackReason (heap s' ! p) = Some (message apiError))) \<and>
   (network e claudeUrl b m = Inl err \<longrightarrow>
      (\<exists>p s'. analyzeWithClaude e b m s = (Inr p, s') \<and>
         analysisMethod (heap s' ! p) = ''mock-fallback'' \<and>
         fallbackReason (heap s' ! p) = Some (message err))) \<and>
   (network e deepseekUrl b m = Inl err \<longrightarrow>
      (\<exists>p s'. analyzeWithDeepSeek e b m s = (Inr p, s') \<and>
         analysisMethod (heap s' ! p) = ''mock-fallback'' \<and>
         fallbackReason (heap s' ! p) = Some (message err))) \<and>
   (network e claudeUrl b m = Inr resp \<and> \<not> ok resp \<and> bodyText resp = Inr errorText \<longrightarrow>
      (\<exists>p s'. analyzeWithClaude e b m s = (Inr p, s') \<and>
         analysisMethod (heap s' ! p) = ''mock-fallback'' \<and>
         fallbackReason (heap s' ! p) =
           Some (''Claude API error: '' @ decimal (status resp) @ '' - '' @ errorText))) \<and>
   (network e deepseekUrl b m = Inr resp \<and> \<not> ok resp \<and> bodyText resp = Inr errorText \<longrightarrow>
      (\<exists>p s'. analyzeWithDeepSeek e b m s = (Inr p, s') \<and>
         analysisMethod (heap s' ! p) = ''mock-fallback'' \<and>
         fallbackReason (heap s' ! p) =
           Some (''DeepSeek API error: '' @ decimal (status resp) @ '' - '' @ errorText))) \<and>
   (analyzeWithClaude e b m s = (Inr p, s') \<longrightarrow>
      (fallbackReason (heap s' ! p) \<noteq> None \<longleftrightarrow> analysisMethod (heap s' ! p) = ''mock-fallback'')) \<and>
   (analyzeWithDeepSeek e b m s = (Inr p, s') \<longrightarrow>
      (fallbackReason (heap s' ! p) \<noteq> None \<longleftrightarrow> analysisMethod (heap s' ! p) = ''mock-fallback''))"
proof (intro conjI impI)
  show "\<exists>p s'. analyzeWithClaude e b m s = (Inr p, s')" by (rule analyzeWithClaude_returns)
  show "\<exists>p s'. analyzeWithDeepSeek e b m s = (Inr p, s')" by (rule analyzeWithDeepSeek_returns)
next
  assume "claudeTry e b m s = (Inl apiError, s1)"
  from analyzeWithClaude_caught[OF this]
  show "\<exists>p s'. analyzeWithClaude e b m s = (Inr p, s') \<and>
         analysisMethod (heap s' ! p) = ''mock-fallback'' \<and>
         fallbackReason (heap s' ! p) = Some (message apiError)" by blast
next
  assume "deepseekTry e b m s = (Inl apiError, s1)"
  from analyzeWithDeepSeek_caught[OF this]
  show "\<exists>p s'. analyzeWithDeepSeek e b m s = (Inr p, s') \<and>
         analysisMethod (heap s' ! p) = ''mock-fallback'' \<and>
         fallbackReason (heap s' ! p) = Some (message apiError)" by blast
next
  assume "network e claudeUrl b m = Inl err"
  from analyzeWithClaude_caught[OF claudeTry_network_error[OF this]]
  show "\<exists>p s'. analyzeWithClaude e b m s = (Inr p, s') \<and>
         analysisMethod (heap s' ! p) = ''mock-fallback'' \<and>
         fallbackReason (heap s' ! p) = Some (message err)" by blast
next
  assume "network e deepseekUrl b m = Inl err"
  from analyzeWithDeepSeek_caught[OF deepseekTry_network_error[OF this]]
  show "\<exists>p s'. analyzeWithDeepSeek e b m s = (Inr p, s') \<and>
         analysisMethod (heap s' ! p) = ''mock-fallback'' \<and>
         fallbackReason (heap s' ! p) = Some (message err)" by blast
next
  assume "network e claudeUrl b m = Inr resp \<and> \<not> ok resp \<and> bodyText resp = Inr errorText"
  then have "claudeTry e b m s =
       (Inl (Error (''Claude API error: '' @ decimal (status resp) @ '' - '' @ errorText)),
        s\<lparr>fetched := fetched s @ [claudeUrl]\<rparr>)"
    using claudeTry_http_error by blast
  from analyzeWithClaude_caught[OF this]
  show "\<exists>p s'. analyzeWithClaude e b m s = (Inr p, s') \<and>
         analysisMethod (heap s' ! p) = ''mock-fallback'' \<and>
         fallbackReason (heap s' ! p) =
           Some (''Claude API error: '' @ decimal (status resp) @ '' - '' @ errorText)"
    by auto
next
  assume "network e deepseekUrl b m = Inr resp \<and> \<not> ok resp \<and> bodyText resp = Inr errorText"
  then have "deepseekTry e b m s =
       (Inl (Error (''DeepSeek API error: '' @ decimal (status resp) @ '' - '' @ errorText)),
        s\<lparr>fetched := fetched s @ [deepseekUrl]\<rparr>)"
    using deepseekTry_http_error by blast
  from analyzeWithDeepSeek_caught[OF this]
  show "\<exists>p s'. analyzeWithDeepSeek e b m s = (Inr p, s') \<and>
         analysisMethod (heap s' ! p) = ''mock-fallback'' \<and>
         fallbackReason (heap s' ! p) =
           Some (''DeepSeek API error: '' @ decimal (status resp) @ '' - '' @ errorText)"
    by auto
next
  assume a: "analyzeWithClaude e b m s = (Inr p, s')"
  show "fallbackReason (heap s' ! p) \<noteq> None \<longleftrightarrow> analysisMethod (heap s' ! p) = ''mock-fallback''"
    by (rule analyzeWithClaude_reason_iff[OF a])
next
  assume a: "analyzeWithDeepSeek e b m s = (Inr p, s')"
  show "fallbackReason (heap s' ! p) \<noteq> None \<longleftrightarrow> analysisMethod (heap s' ! p) = ''mock-fallback''"
    by (rule analyzeWithDeepSeek_reason_iff[OF a])
qed

theorem provider_failure_gives_mock_fallback_witness:
  "analyzeWithClaude (exampleEnv (Some ''key'') (Some ''key2'') networkDown (1 / 4) 0)
     (JString ''abc'') ''image/jpeg'' emptyState =
     (Inr 0,
      \<lparr>heap = [\<lparr>isOriginal = False, confidence = Finite 75, summary = aiSummary,
                analysisMethod = ''mock-fallback'', fallbackReason = Some ''socket hang up''\<rparr>],
       fetched = [claudeUrl]\<rparr>) \<and>
   analyzeWithDeepSeek (exampleEnv None (Some ''key2'') unauthorized (1 / 4) 0)
     (JString ''abc'') ''image/jpeg'' emptyState =
     (Inr 0,
      \<lparr>heap = [\<lparr>isOriginal = False, confidence = Finite 75, summary = aiSummary,
                analysisMethod = ''mock-fallback'',
                fallbackReason = Some ''DeepSeek API error: 401 - bad key''\<rparr>],
       fetched = [deepseekUrl]\<rparr>) \<and>
   (Some ''socket hang up'' \<noteq> None) = (''mock-fallback'' = ''mock-fallback'')"
proof -
  let ?E = "exampleEnv (Some ''key'') (Some ''key2'') networkDown (1 / 4) 0"
  have "network ?E claudeUrl (JString ''abc'') ''image/jpeg'' = Inl (Error ''socket hang up'')"
    by (simp add: networkDown_def)
  from provider_failure_gives_mock_fallback
         [of ?E "JString ''abc''" "''image/jpeg''" emptyState, THEN conjunct2, THEN conjunct2,
          THEN conjunct2, THEN conjunct2, THEN conjunct1, rule_format, OF this]
  have "\<exists>p s'. analyzeWithClaude ?E (JString ''abc'') ''image/jpeg'' emptyState = (Inr p, s') \<and>
          analysisMethod (heap s' ! p) = ''mock-fallback'' \<and>
          fallbackReason (heap s' ! p) = Some ''socket hang up''"
    by simp
  then show ?thesis using networkDown_example unauthorized_example by simp
qed

subsection \<open>The choice of the provider\<close>

lemma urls_differ: "claudeUrl \<noteq> deepseekUrl"
  by (simp add: claudeUrl_def deepseekUrl_def)

lemma analyzeWithClaude_fetched:
  "analyzeWithClaude e b m s = (res, s') \<Longrightarrow> fetched s' = fetched s @ [claudeUrl]"
  using analyzeWithClaude_cases by blast

lemma analyzeWithDeepSeek_fetched:
  "analyzeWithDeepSeek e b m s = (res, s') \<Longrightarrow> fetched s' = fetched s @ [deepseekUrl]"
  using analyzeWithDeepSeek_cases by blast

lemma networkDown_handler_example:
  "analyzeHandler (exampleEnv (Some ''key'') (Some ''key2'') networkDown (1 / 4) 0)
     (Some (JString ''abc'')) emptyState =
     (Json200 \<lparr>isOriginal = False, confidence = Finite 75, summary = aiSummary,
               analysisMethod = ''mock-fallback'', fallbackReason = Some ''socket hang up''\<rparr>,
      \<lparr>heap = [\<lparr>isOriginal = False, confidence = Finite 75, summary = aiSummary,
                analysisMethod = ''mock-fallback'', fallbackReason = Some ''socket hang up''\<rparr>],
       fetched = [claudeUrl]\<rparr>)"
  by (simp add: analyzeHandler_def imageData_def analyze_def configured_def networkDown_example)

text \<open>
  C4. The provider is chosen from the keys alone, whatever the request holds: Claude when
  its key is configured, else DeepSeek when its key is configured, else the mock. The chosen
  provider function makes exactly one request, to its own URL. So with both keys configured,
  when the Claude call fails the result is the mock fallback (tagged \<^verbatim>\<open>mock-fallback\<close>,
  with the error's message), the only request of the whole handling is the one to Claude,
  and DeepSeek is not requested: no retry and no fallback to the other provider.
\<close>

theorem no_retry_and_no_cross_provider_fallback:
  "(configured (CLAUDE_KEY e) \<longrightarrow>
      analyze e b m s = analyzeWithClaude e b m s \<and>
      fetched (snd (analyze e b m s)) = fetched s @ [claudeUrl]) \<and>
   (\<not> configured (CLAUDE_KEY e) \<and> configured (DEEPSEEK_KEY e) \<longrightarrow>
      analyze e b m s = analyzeWithDeepSeek e b m s \<and>
      fetched (snd (analyze e b m s)) = fetched s @ [deepseekUrl]) \<and>
   (\<not> configured (CLAUDE_KEY e) \<and> \<not> configured (DEEPSEEK_KEY e) \<longrightarrow>
      fetched (snd (analyze e b m s)) = fetched s) \<and>
   (configured (CLAUDE_KEY e) \<and> configured (DEEPSEEK_KEY e) \<and>
    claudeTry e b m s = (Inl apiError, s1) \<longrightarrow>
      (\<exists>p s'. analyze e b m s = (Inr p, s') \<and>
         analysisMethod (heap s' ! p) = ''mock-fallback'' \<and>
         fallbackReason (heap s' ! p) = Some (message apiError) \<and>
         fetched s' = fetched s @ [claudeUrl] \<and>
         deepseekUrl \<notin> set [claudeUrl])) \<and>
   (analyzeHandler e image' s = (response', s') \<longrightarrow>
      fetched s' = fetched s \<or>
      (configured (CLAUDE_KEY e) \<and> fetched s' = fetched s @ [claudeUrl]) \<or>
      (\<not> configured (CLAUDE_KEY e) \<and> configured (DEEPSEEK_KEY e) \<and>
       fetched s' = fetched s @ [deepseekUrl]))"
proof (intro conjI impI)
  assume c: "configured (CLAUDE_KEY e)"
  then show "analyze e b m s = analyzeWithClaude e b m s" by (simp add: analyze_def)
  with analyzeWithClaude_fetched[of e b m s "fst (analyzeWithClaude e b m s)" "snd (analyzeWithClaude e b m s)"]
  show "fetched (snd (analyze e b m s)) = fetched s @ [claudeUrl]" by simp
next
  assume c: "\<not> configured (CLAUDE_KEY e) \<and> configured (DEEPSEEK_KEY e)"
  then show eq: "analyze e b m s = analyzeWithDeepSeek e b m s" by (simp add: analyze_def)
  with analyzeWithDeepSeek_fetched[of e b m s "fst (analyzeWithDeepSeek e b m s)" "snd (analyzeWithDeepSeek e b m s)"]
  show "fetched (snd (analyze e b m s)) = fetched s @ [deepseekUrl]" by simp
next
  assume c: "\<not> configured (CLAUDE_KEY e) \<and> \<not> configured (DEEPSEEK_KEY e)"
  obtain res s2 where a: "analyze e b m s = (res, s2)" by (cases "analyze e b m s")
  from analyze_mock[OF _ _ a] c obtain p where "performMockAnalysis e s = (p, s2)" by blast
  from performMockAnalysis_more(3)[OF this] a
  show "fetched (snd (analyze e b m s)) = fetched s" by simp
next
  assume c: "configured (CLAUDE_KEY e) \<and> configured (DEEPSEEK_KEY e) \<and>
    claudeTry e b m s = (Inl apiError, s1)"
  then have eq: "analyze e b m s = analyzeWithClaude e b m s" by (simp add: analyze_def)
  from c have "claudeTry e b m s = (Inl apiError, s1)" by simp
  from analyzeWithClaude_caught[OF this] eq urls_differ
  show "\<exists>p s'. analyze e b m s = (Inr p, s') \<and>
         analysisMethod (heap s' ! p) = ''mock-fallback'' \<and>
         fallbackReason (heap s' ! p) = Some (message apiError) \<and>
         fetched s' = fetched s @ [claudeUrl] \<and>
         deepseekUrl \<notin> set [claudeUrl]"
    by auto
next
  assume h: "analyzeHandler e image' s = (response', s')"
  show "fetched s' = fetched s \<or>
      (configured (CLAUDE_KEY e) \<and> fetched s' = fetched s @ [claudeUrl]) \<or>
      (\<not> configured (CLAUDE_KEY e) \<and> configured (DEEPSEEK_KEY e) \<and>
       fetched s' = fetched s @ [deepseekUrl])"
  proof (cases "\<exists>b m res. analyze e b m s = (res, s')")
    case False
    with h show ?thesis
      by (auto simp: analyzeHandler_def split: option.splits if_splits sum.splits prod.splits)
  next
    case True
    then obtain b m res where a: "analyze e b m s = (res, s')" by blast
    consider (claude) "configured (CLAUDE_KEY e)"
      | (deepseek) "\<not> configured (CLAUDE_KEY e)" "configured (DEEPSEEK_KEY e)"
      | (none) "\<not> configured (CLAUDE_KEY e)" "\<not> configured (DEEPSEEK_KEY e)"
      by blast
    then show ?thesis
    proof cases
      case claude
      with a have "analyzeWithClaude e b m s = (res, s')" by (simp add: analyze_def)
      from analyzeWithClaude_fetched[OF this] claude show ?thesis by simp
    next
      case deepseek
      with a have "analyzeWithDeepSeek e b m s = (res, s')" by (simp add: analyze_def)
      from analyzeWithDeepSeek_fetched[OF this] deepseek show ?thesis by simp
    next
      case none
      from analyze_mock[OF none a] obtain p where "performMockAnalysis e s = (p, s')" by blast
      from performMockAnalysis_more(3)[OF this] show ?thesis by simp
    qed
  qed
qed

theorem no_retry_and_no_cross_provider_fallback_witness:
  "analyzeHandler (exampleEnv (Some ''key'') (Some ''key2'') networkDown (1 / 4) 0)
     (Some (JString ''abc'')) emptyState =
     (Json200 \<lparr>isOriginal = False, confidence = Finite 75, summary = aiSummary,
               analysisMethod = ''mock-fallback'', fallbackReason = Some ''socket hang up''\<rparr>,
      \<lparr>heap = [\<lparr>isOriginal = False, confidence = Finite 75, summary = aiSummary,
                analysisMethod = ''mock-fallback'', fallbackReason = Some ''socket hang up''\<rparr>],
       fetched = [claudeUrl]\<rparr>) \<and>
   configured (Some ''key'') \<and> configured (Some ''key2'') \<and> deepseekUrl \<notin> set [claudeUrl]"
proof -
  let ?E = "exampleEnv (Some ''key'') (Some ''key2'') networkDown (1 / 4) 0"
  have c: "configured (CLAUDE_KEY ?E) \<and> configured (DEEPSEEK_KEY ?E) \<and>
           claudeTry ?E (JString ''abc'') ''image/jpeg'' emptyState =
             (Inl (Error ''socket hang up''), emptyState\<lparr>fetched := fetched emptyState @ [claudeUrl]\<rparr>)"
    by (simp add: configured_def claudeTry_network_error networkDown_def)
  from no_retry_and_no_cross_provider_fallback
         [of ?E "JString ''abc''" "''image/jpeg''" emptyState, THEN conjunct2, THEN conjunct2,
          THEN conjunct2, THEN conjunct1, rule_format, OF c]
  have "deepseekUrl \<notin> set [claudeUrl]" by blast
  then show ?thesis using networkDown_handler_example by (simp add: configured_def)
qed

subsection \<open>The heuristic paths\<close>





lemmas heuristic_eval =
  claudeHeuristic_def deepseekHeuristic_def extractObservations_def toLowerCase_def
  lowerChar_def isUpperCase_def stripBullet_def isBulletChar_def isDigit_def trim_def
  trimStart_def trimEnd_def isWhiteSpace_def claudeDefaultSummary_def
  deepseekDefaultSummary_def Let_def

lemma freeTextReply_not_json: "parseStrict e method freeTextReply = Inl (Error (syntaxErrorMessage e freeTextReply))"
  by (simp add: freeTextReply_def strict_eval json_eval)

lemma freeTextReply_claude:
  "claudeHeuristic freeTextReply =
     \<lparr>isOriginal = False, confidence = Finite 70,
      summary = [JString ''This image shows clear AI-generated artifacts in the hands.''],
      analysisMethod = ''claude-api-fallback'', fallbackReason = None\<rparr>"
  by (simp add: freeTextReply_def heuristic_eval)


lemma freeTextReply_example:
  "analyzeHandler (exampleEnv (Some ''key'') None (claudeReply freeTextReply) (3 / 4) (1 / 3))
     (Some (JString ''abc'')) emptyState =
     (Json200 (claudeHeuristic freeTextReply),
      \<lparr>heap = [claudeHeuristic freeTextReply], fetched = [claudeUrl]\<rparr>)"
  by (simp add: handler_eval claudeTry_reply freeTextReply_not_json)



text \<open>
  C10. The two heuristic extractors are different functions: the Claude one also scans for
  \<^verbatim>\<open>fake\<close>. On a text whose lower-cased form holds \<^verbatim>\<open>fake\<close> and none of \<^verbatim>\<open>ai-generated\<close>,
  \<^verbatim>\<open>artificial\<close>, \<^verbatim>\<open>generated\<close>, the DeepSeek heuristic gives \<^verbatim>\<open>isOriginal\<close> true and the
  Claude heuristic gives \<^verbatim>\<open>isOriginal\<close> false.
\<close>

definition fakeReply :: string where
  "fakeReply = ''This picture looks fake to me.''"

lemma fakeReply_lower:
  "includes_str (toLowerCase fakeReply) ''fake'' \<and>
   \<not> includes_str (toLowerCase fakeReply) ''ai-generated'' \<and>
   \<not> includes_str (toLowerCase fakeReply) ''artificial'' \<and>
   \<not> includes_str (toLowerCase fakeReply) ''generated''"
  by (simp add: fakeReply_def toLowerCase_def lowerChar_def isUpperCase_def)

lemma fakeReply_not_json: "parseStrict e method fakeReply = Inl (Error (syntaxErrorMessage e fakeReply))"
  by (simp add: fakeReply_def strict_eval json_eval)

theorem heuristics_differ_on_fake:
  assumes "includes_str (toLowerCase t) ''fake''"
      and "\<not> includes_str (toLowerCase t) ''ai-generated''"
      and "\<not> includes_str (toLowerCase t) ''artificial''"
      and "\<not> includes_str (toLowerCase t) ''generated''"
  shows "isOriginal (deepseekHeuristic t) = True \<and> isOriginal (claudeHeuristic t) = False \<and>
         claudeHeuristic \<noteq> deepseekHeuristic"
proof -
  have d: "isOriginal (deepseekHeuristic t) = True"
    using assms deepseekHeuristic_fields[of t] by simp
  have c: "isOriginal (claudeHeuristic t) = False"
    using assms claudeHeuristic_fields[of t] by simp
  from c d have "claudeHeuristic t \<noteq> deepseekHeuristic t" by auto
  then have "claudeHeuristic \<noteq> deepseekHeuristic" by auto
  with c d show ?thesis by simp
qed

theorem heuristics_differ_on_fake_witness:
  "includes_str (toLowerCase fakeReply) ''fake'' \<and>
   \<not> includes_str (toLowerCase fakeReply) ''ai-generated'' \<and>
   \<not> includes_str (toLowerCase fakeReply) ''artificial'' \<and>
   \<not> includes_str (toLowerCase fakeReply) ''generated'' \<and>
   (\<exists>err. parseStrict (exampleEnv None None networkDown 0 0) ''claude-api'' fakeReply = Inl err) \<and>
   isOriginal (deepseekHeuristic fakeReply) = True \<and>
   isOriginal (claudeHeuristic fakeReply) = False"
  using heuristics_differ_on_fake[of fakeReply] fakeReply_lower fakeReply_not_json
  by simp

subsection \<open>The summary\<close>

lemma extractObservations_length: "length (extractObservations t) \<le> 4"
  by (simp add: extractObservations_def Let_def)

lemma claudeHeuristic_summary:
  "summary (claudeHeuristic t) =
     (if extractObservations t = [] then claudeDefaultSummary
      else map JString (extractObservations t))"
  by (simp add: claudeHeuristic_def Let_def)

lemma deepseekHeuristic_summary:
  "summary (deepseekHeuristic t) =
     (if extractObservations t = [] then deepseekDefaultSummary
      else map JString (extractObservations t))"
  by (simp add: deepseekHeuristic_def Let_def)

lemma default_summaries_length:
  "length claudeDefaultSummary = 4" "length deepseekDefaultSummary = 4"
  "length authenticSummary = 4" "length aiSummary = 4"
  by (simp_all add: claudeDefaultSummary_def deepseekDefaultSummary_def authenticSummary_def
        aiSummary_def)

lemma heuristic_summary_length:
  "1 \<le> length (summary (claudeHeuristic t)) \<and> length (summary (claudeHeuristic t)) \<le> 4 \<and>
   1 \<le> length (summary (deepseekHeuristic t)) \<and> length (summary (deepseekHeuristic t)) \<le> 4"
  using extractObservations_length[of t]
  by (cases "extractObservations t")
     (simp_all add: claudeHeuristic_summary deepseekHeuristic_summary default_summaries_length)

lemma freeTextReply_observations:
  "extractObservations freeTextReply =
     [''This image shows clear AI-generated artifacts in the hands.'']"
  by (simp add: freeTextReply_def heuristic_eval)

lemma empty_text_observations: "extractObservations [] = []"
  by (simp add: heuristic_eval)

text \<open>
  C6, as the spec states it, fails: a heuristic path that extracts fewer than four
  observations does not pad them. For the reply
  \<^verbatim>\<open>This image shows clear AI-generated artifacts in the hands.\<close> one observation is
  extracted, and the summary that \<^verbatim>\<open>/analyze\<close> sends is that one line: not four entries, and
  not the default set.
\<close>

theorem summary_is_not_padded_counterexample:
  "length (extractObservations freeTextReply) < 4 \<and>
   analyzeHandler (exampleEnv (Some ''key'') None (claudeReply freeTextReply) (3 / 4) (1 / 3))
     (Some (JString ''abc'')) emptyState =
     (Json200 (claudeHeuristic freeTextReply),
      \<lparr>heap = [claudeHeuristic freeTextReply], fetched = [claudeUrl]\<rparr>) \<and>
   summary (claudeHeuristic freeTextReply) =
     [JString ''This image shows clear AI-generated artifacts in the hands.''] \<and>
   length (summary (claudeHeuristic freeTextReply)) \<noteq> 4 \<and>
   summary (claudeHeuristic freeTextReply) \<noteq> claudeDefaultSummary"
  using freeTextReply_example
  by (simp add: freeTextReply_observations freeTextReply_claude claudeDefaultSummary_def)

text \<open>
  C6, amended. A heuristic summary has from one to four entries: it is the first qualifying
  lines of the reply, at most four of them, when there is at least one, and the provider's
  fixed default set of four lines only when there is none; it is not padded to four. The
  mock summary, alone or as the fallback, has exactly four entries.
\<close>

theorem heuristic_summary_has_one_to_four_entries:
  "1 \<le> length (summary (claudeHeuristic t)) \<and> length (summary (claudeHeuristic t)) \<le> 4 \<and>
   1 \<le> length (summary (deepseekHeuristic t)) \<and> length (summary (deepseekHeuristic t)) \<le> 4 \<and>
   (extractObservations t \<noteq> [] \<longrightarrow>
      summary (claudeHeuristic t) = map JString (extractObservations t) \<and>
      summary (deepseekHeuristic t) = map JString (extractObservations t)) \<and>
   (extractObservations t = [] \<longrightarrow>
      summary (claudeHeuristic t) = claudeDefaultSummary \<and>
      summary (deepseekHeuristic t) = deepseekDefaultSummary) \<and>
   length claudeDefaultSummary = 4 \<and> length deepseekDefaultSummary = 4 \<and>
   (performMockAnalysis e s = (p, s1) \<longrightarrow> length (summary (heap s1 ! p)) = 4) \<and>
   (mockFallback e apiError s = (q, s2) \<longrightarrow> length (summary (heap s2 ! q)) = 4)"
proof -
  have 1: "performMockAnalysis e s = (p, s1) \<longrightarrow> length (summary (heap s1 ! p)) = 4"
    using performMockAnalysis_more(2)[of e s p s1] by (simp add: default_summaries_length)
  have 2: "mockFallback e apiError s = (q, s2) \<longrightarrow> length (summary (heap s2 ! q)) = 4"
  proof
    assume "mockFallback e apiError s = (q, s2)"
    from mockFallback_result[OF this]
    have "summary (heap s2 ! q) = (if random1 e > 1 / 2 then authenticSummary else aiSummary)"
      by blast
    then show "length (summary (heap s2 ! q)) = 4" by (simp add: default_summaries_length)
  qed
  from 1 2 heuristic_summary_length[of t] show ?thesis
    by (simp add: claudeHeuristic_summary deepseekHeuristic_summary default_summaries_length)
qed

theorem heuristic_summary_has_one_to_four_entries_witness:
  "extractObservations freeTextReply \<noteq> [] \<and>
   summary (claudeHeuristic freeTextReply) =
     [JString ''This image shows clear AI-generated artifacts in the hands.''] \<and>
   extractObservations [] = [] \<and>
   summary (claudeHeuristic []) = claudeDefaultSummary \<and>
   summary (deepseekHeuristic []) = deepseekDefaultSummary \<and>
   length (summary (heap (snd (performMockAnalysis (exampleEnv None None networkDown 0 0) emptyState))
              ! fst (performMockAnalysis (exampleEnv None None networkDown 0 0) emptyState))) = 4"
  using heuristic_summary_has_one_to_four_entries[of freeTextReply]
        heuristic_summary_has_one_to_four_entries
          [of "[]" "exampleEnv None None networkDown 0 0" emptyState
              "fst (performMockAnalysis (exampleEnv None None networkDown 0 0) emptyState)"
              "snd (performMockAnalysis (exampleEnv None None networkDown 0 0) emptyState)"]
        freeTextReply_observations empty_text_observations
  by simp

text \<open>
  C3. The summary has at least one entry on the heuristic paths (which put the default set
  in the place of an empty list) and on the mock paths. The strict path does not make sure
  of it: it checks only that \<^verbatim>\<open>observations\<close> is an array, so the valid reply
  \<^verbatim>\<open>{"isOriginal":true,"confidence":50,"observations":[]}\<close> is sent on by \<^verbatim>\<open>/analyze\<close> with an
  empty summary.
\<close>

definition emptyObservationsReply :: string where
  \<open>emptyObservationsReply = ''{"isOriginal":true,"confidence":50,"observations":[]}''\<close>

lemma floor_101_half: "\<lfloor>(101 :: rat) / 2\<rfloor> = 50"
  by (rule floor_unique) simp_all

lemma emptyObservationsReply_parse:
  "parseStrict e method emptyObservationsReply =
     Inr \<lparr>isOriginal = True, confidence = Finite 50, summary = [],
          analysisMethod = method, fallbackReason = None\<rparr>"
  by (simp add: emptyObservationsReply_def strict_eval json_eval floor_101_half)

theorem strict_path_returns_an_empty_summary:
  "analyzeHandler (exampleEnv (Some ''key'') None (claudeReply emptyObservationsReply) (3 / 4) (1 / 3))
     (Some (JString ''abc'')) emptyState =
     (Json200 \<lparr>isOriginal = True, confidence = Finite 50, summary = [],
               analysisMethod = ''claude-api'', fallbackReason = None\<rparr>,
      \<lparr>heap = [\<lparr>isOriginal = True, confidence = Finite 50, summary = [],
                analysisMethod = ''claude-api'', fallbackReason = None\<rparr>],
       fetched = [claudeUrl]\<rparr>) \<and>
   analyzeHandler (exampleEnv None (Some ''key'') (deepseekReply emptyObservationsReply) (3 / 4) (1 / 3))
     (Some (JString ''abc'')) emptyState =
     (Json200 \<lparr>isOriginal = True, confidence = Finite 50, summary = [],
               analysisMethod = ''deepseek-api'', fallbackReason = None\<rparr>,
      \<lparr>heap = [\<lparr>isOriginal = True, confidence = Finite 50, summary = [],
                analysisMethod = ''deepseek-api'', fallbackReason = None\<rparr>],
       fetched = [deepseekUrl]\<rparr>) \<and>
   summary (claudeHeuristic t) \<noteq> [] \<and> summary (deepseekHeuristic t) \<noteq> []"
proof -
  have "summary (claudeHeuristic t) \<noteq> [] \<and> summary (deepseekHeuristic t) \<noteq> []"
    using heuristic_summary_length[of t] by auto
  then show ?thesis
    by (simp add: handler_eval claudeTry_reply deepseekTry_reply emptyObservationsReply_parse)
qed

subsection \<open>Which objects a handling writes\<close>

lemma analyze_heap:
  assumes "analyze e b m s = (res, s')"
  shows "\<exists>p. res = Inr p \<and> p = length (heap s) \<and> heap s' = heap s @ [heap s' ! p]"
proof -
  consider (claude) "configured (CLAUDE_KEY e)"
    | (deepseek) "\<not> configured (CLAUDE_KEY e)" "configured (DEEPSEEK_KEY e)"
    | (none) "\<not> configured (CLAUDE_KEY e)" "\<not> configured (DEEPSEEK_KEY e)"
    by blast
  then show ?thesis
  proof cases
    case claude
    with assms have "analyzeWithClaude e b m s = (res, s')" by (simp add: analyze_def)
    from analyzeWithClaude_cases[OF this] show ?thesis by blast
  next
    case deepseek
    with assms have "analyzeWithDeepSeek e b m s = (res, s')" by (simp add: analyze_def)
    from analyzeWithDeepSeek_cases[OF this] show ?thesis by blast
  next
    case none
    from analyze_mock[OF none assms] obtain p
      where p: "res = Inr p" "performMockAnalysis e s = (p, s')" by blast
    from performMockAnalysis_result[OF p(2)] p(1) show ?thesis by blast
  qed
qed

lemma analyzeHandler_heap:
  assumes "analyzeHandler e image' s = (response', s')"
  shows "heap s' = heap s \<or> (\<exists>r. heap s' = heap s @ [r])"
proof (cases "\<exists>b m res. analyze e b m s = (res, s')")
  case True
  then obtain b m res where "analyze e b m s = (res, s')" by blast
  from analyze_heap[OF this] show ?thesis by blast
next
  case False
  with assms have "s' = s"
    by (auto simp: analyzeHandler_def split: option.splits if_splits sum.splits prod.splits)
  then show ?thesis by simp
qed

lemma mockFallback_mutates:
  assumes "mockFallback e apiError s = (p, s')"
  shows "\<exists>s1. performMockAnalysis e s = (p, s1) \<and>
           heap s' ! p =
             (heap s1 ! p)\<lparr>analysisMethod := ''mock-fallback'',
                            fallbackReason := Some (message apiError)\<rparr>"
  using assms
  by (auto simp: mockFallback_def performMockAnalysis_def Let_def newObject_def assign_def)

definition afterFetch :: state where
  "afterFetch = \<lparr>heap = [], fetched = [claudeUrl]\<rparr>"

definition hangUp :: js_error where
  "hangUp = Error ''socket hang up''"

definition mockEnv :: env where
  "mockEnv = exampleEnv (Some ''key'') None networkDown (1 / 4) 0"

lemma mock_then_assign_example:
  "performMockAnalysis mockEnv afterFetch =
     (0, \<lparr>heap = [\<lparr>isOriginal = False, confidence = Finite 75, summary = aiSummary,
                    analysisMethod = ''mock'', fallbackReason = None\<rparr>],
          fetched = [claudeUrl]\<rparr>) \<and>
   mockFallback mockEnv hangUp afterFetch =
     (0, \<lparr>heap = [\<lparr>isOriginal = False, confidence = Finite 75, summary = aiSummary,
                    analysisMethod = ''mock-fallback'',
                    fallbackReason = Some ''socket hang up''\<rparr>],
          fetched = [claudeUrl]\<rparr>)"
  by (simp add: mockEnv_def afterFetch_def hangUp_def mockFallback_def performMockAnalysis_def
        newObject_def assign_def)

text \<open>
  C9, as the spec states it, fails: in the \<^verbatim>\<open>catch\<close> block of a provider function the object
  that \<^verbatim>\<open>performMockAnalysis\<close> made and returned is written to afterwards. After
  \<^verbatim>\<open>performMockAnalysis\<close> has returned, the object at address 0 has \<^verbatim>\<open>analysisMethod\<close>
  \<^verbatim>\<open>mock\<close> and no \<^verbatim>\<open>fallbackReason\<close>; when the \<^verbatim>\<open>catch\<close> block is done, the object at the
  same address has \<^verbatim>\<open>analysisMethod\<close> \<^verbatim>\<open>mock-fallback\<close> and a \<^verbatim>\<open>fallbackReason\<close>.
\<close>

theorem mock_result_is_mutated_counterexample:
  "fst (performMockAnalysis mockEnv afterFetch) = 0 \<and>
   fst (mockFallback mockEnv hangUp afterFetch) = 0 \<and>
   analysisMethod (heap (snd (performMockAnalysis mockEnv afterFetch)) ! 0) = ''mock'' \<and>
   fallbackReason (heap (snd (performMockAnalysis mockEnv afterFetch)) ! 0) = None \<and>
   analysisMethod (heap (snd (mockFallback mockEnv hangUp afterFetch)) ! 0) = ''mock-fallback'' \<and>
   fallbackReason (heap (snd (mockFallback mockEnv hangUp afterFetch)) ! 0) = Some ''socket hang up'' \<and>
   heap (snd (mockFallback mockEnv hangUp afterFetch)) ! 0 \<noteq>
     heap (snd (performMockAnalysis mockEnv afterFetch)) ! 0"
  using mock_then_assign_example by simp

text \<open>
  C9, amended. A result is not mutated once the provider function (or, without a key,
  \<^verbatim>\<open>performMockAnalysis\<close>) has returned it to the handler: the choice of the analysis
  allocates exactly one object, the result, and leaves every object that was there before as
  it was; the handler writes to no object and sends the result as it is in the state the
  analysis left. Inside the \<^verbatim>\<open>catch\<close> block, the object that \<^verbatim>\<open>performMockAnalysis\<close> returned
  is changed in two properties, \<^verbatim>\<open>analysisMethod\<close> and \<^verbatim>\<open>fallbackReason\<close>, and in nothing else.
\<close>

theorem result_is_not_mutated_after_the_analysis_returns:
  "(analyze e b m s = (res, s') \<longrightarrow>
      (\<exists>p. res = Inr p \<and> p = length (heap s) \<and> heap s' = heap s @ [heap s' ! p])) \<and>
   (analyzeHandler e image' s = (Json200 r, s2) \<longrightarrow>
      (\<exists>b m p. analyze e b m s = (Inr p, s2) \<and> r = heap s2 ! p)) \<and>
   (analyzeHandler e image' s = (response', s3) \<longrightarrow>
      heap s3 = heap s \<or> (\<exists>r. heap s3 = heap s @ [r])) \<and>
   (mockFallback e apiError s = (q, s4) \<longrightarrow>
      (\<exists>s1. performMockAnalysis e s = (q, s1) \<and>
         heap s4 ! q =
           (heap s1 ! q)\<lparr>analysisMethod := ''mock-fallback'',
                          fallbackReason := Some (message apiError)\<rparr>))"
proof (intro conjI impI)
  assume "analyze e b m s = (res, s')"
  from analyze_heap[OF this]
  show "\<exists>p. res = Inr p \<and> p = length (heap s) \<and> heap s' = heap s @ [heap s' ! p]" .
next
  assume "analyzeHandler e image' s = (Json200 r, s2)"
  from analyzeHandler_Json200[OF this]
  show "\<exists>b m p. analyze e b m s = (Inr p, s2) \<and> r = heap s2 ! p" by blast
next
  assume "analyzeHandler e image' s = (response', s3)"
  from analyzeHandler_heap[OF this]
  show "heap s3 = heap s \<or> (\<exists>r. heap s3 = heap s @ [r])" .
next
  assume "mockFallback e apiError s = (q, s4)"
  from mockFallback_mutates[OF this]
  show "\<exists>s1. performMockAnalysis e s = (q, s1) \<and>
         heap s4 ! q =
           (heap s1 ! q)\<lparr>analysisMethod := ''mock-fallback'',
                          fallbackReason := Some (message apiError)\<rparr>" .
qed

definition olderResult :: analysisResult where
  "olderResult =
     \<lparr>isOriginal = True, confidence = Finite 90, summary = authenticSummary,
      analysisMethod = ''mock'', fallbackReason = None\<rparr>"

lemma older_result_example:
  "analyzeHandler (exampleEnv (Some ''key'') (Some ''key2'') networkDown (1 / 4) 0)
     (Some (JString ''abc'')) \<lparr>heap = [olderResult], fetched = []\<rparr> =
     (Json200 \<lparr>isOriginal = False, confidence = Finite 75, summary = aiSummary,
               analysisMethod = ''mock-fallback'', fallbackReason = Some ''socket hang up''\<rparr>,
      \<lparr>heap = [olderResult,
               \<lparr>isOriginal = False, confidence = Finite 75, summary = aiSummary,
                analysisMethod = ''mock-fallback'', fallbackReason = Some ''socket hang up''\<rparr>],
       fetched = [claudeUrl]\<rparr>)"
  by (simp add: analyzeHandler_def imageData_def analyze_def configured_def
        analyzeWithClaude_def claudeTry_network_error networkDown_def mockFallback_def
        performMockAnalysis_def newObject_def assign_def)

theorem result_is_not_mutated_after_the_analysis_returns_witness:
  "analyzeHandler (exampleEnv (Some ''key'') (Some ''key2'') networkDown (1 / 4) 0)
     (Some (JString ''abc'')) \<lparr>heap = [olderResult], fetched = []\<rparr> =
     (Json200 \<lparr>isOriginal = False, confidence = Finite 75, summary = aiSummary,
               analysisMethod = ''mock-fallback'', fallbackReason = Some ''socket hang up''\<rparr>,
      \<lparr>heap = [olderResult,
               \<lparr>isOriginal = False, confidence = Finite 75, summary = aiSummary,
                analysisMethod = ''mock-fallback'', fallbackReason = Some ''socket hang up''\<rparr>],
       fetched = [claudeUrl]\<rparr>) \<and>
   (\<exists>b m p. analyze (exampleEnv (Some ''key'') (Some ''key2'') networkDown (1 / 4) 0) b m
               \<lparr>heap = [olderResult], fetched = []\<rparr> =
             (Inr p, \<lparr>heap = [olderResult,
               \<lparr>isOriginal = False, confidence = Finite 75, summary = aiSummary,
                analysisMethod = ''mock-fallback'', fallbackReason = Some ''socket hang up''\<rparr>],
               fetched = [claudeUrl]\<rparr>))"
  using result_is_not_mutated_after_the_analysis_returns
          [THEN conjunct2, THEN conjunct1, rule_format, OF older_result_example]
        older_result_example
  by blast

subsection \<open>The text of a JSON object ends with its closing brace\<close>

lemma lexString_suffix: "lexString s = Some (str, rest) \<Longrightarrow> suffix rest s"
proof (induction s arbitrary: str rest rule: lexString.induct)
  case 1
  then show ?case by simp
next
  case (2 c cs)
  show ?case
  proof (cases "c = CHR 0x22")
    case True
    with "2.prems" show ?thesis by (simp add: suffix_ConsI)
  next
    case notq: False
    show ?thesis
    proof (cases "c = CHR 0x5C")
      case True
      then obtain e es where cs: "cs = e # es"
        using "2.prems" notq by (cases cs) auto
      show ?thesis
      proof (cases "e = CHR ''u''")
        case eu: True
        then obtain ch where h: "hex4 (take 4 es) = Some ch"
          using "2.prems" notq True cs by (auto split: option.splits)
        with "2.prems" notq True cs eu
        have "consChar ch (lexString (drop 4 es)) = Some (str, rest)" by simp
        then obtain str' where "lexString (drop 4 es) = Some (str', rest)"
          using consChar_Some by blast
        from "2.IH"(1)[OF notq True cs eu h this] have "suffix rest (drop 4 es)" .
        then have "suffix rest es"
          using suffix_drop suffix_order.trans by blast
        then show ?thesis using cs by (simp add: suffix_ConsI)
      next
        case eu: False
        then obtain ch where h: "simpleEscape e = Some ch"
          using "2.prems" notq True cs by (auto split: option.splits)
        with "2.prems" notq True cs eu
        have "consChar ch (lexString es) = Some (str, rest)" by simp
        then obtain str' where "lexString es = Some (str', rest)"
          using consChar_Some by blast
        from "2.IH"(2)[OF notq True cs eu h this] show ?thesis
          using cs by (simp add: suffix_ConsI)
      qed
    next
      case False
      with "2.prems" notq have ctl: "\<not> (of_char c :: nat) < 32"
        and "consChar c (lexString cs) = Some (str, rest)"
        by (auto split: if_splits)
      then obtain str' where "lexString cs = Some (str', rest)"
        using consChar_Some by blast
      from "2.IH"(3)[OF notq False ctl this] show ?thesis by (simp add: suffix_ConsI)
    qed
  qed
qed

lemma lexInt_suffix: "lexInt s = Some (ip, rest) \<Longrightarrow> suffix rest s"
  by (auto simp: lexInt_def Let_def suffix_dropWhile split: if_splits)

lemma lexFrac_suffix: "lexFrac s = Some (fd, rest) \<Longrightarrow> suffix rest s"
  by (cases s) (auto simp: suffix_dropWhile suffix_ConsI split: if_splits)

lemma lexExpDigits_suffix: "lexExpDigits neg s = Some (e, rest) \<Longrightarrow> suffix rest s"
  by (auto simp: lexExpDigits_def suffix_dropWhile split: if_splits)

lemma lexExp_suffix: "lexExp s = Some (e, rest) \<Longrightarrow> suffix rest s"
proof (cases s)
  case Nil
  assume "lexExp s = Some (e, rest)"
  with Nil show ?thesis by simp
next
  case (Cons c cs)
  assume a: "lexExp s = Some (e, rest)"
  show ?thesis
  proof (cases "c = CHR ''e'' \<or> c = CHR ''E''")
    case False
    with a Cons show ?thesis by auto
  next
    case True
    with a Cons obtain d ds where cs: "cs = d # ds" by (cases cs) auto
    from a Cons True cs have "suffix rest cs"
      by (auto simp: suffix_ConsI split: if_splits dest!: lexExpDigits_suffix)
    then show ?thesis using Cons by (simp add: suffix_ConsI)
  qed
qed

lemma lexUnsigned_suffix: "lexUnsigned s = Some (q, rest) \<Longrightarrow> suffix rest s"
proof -
  assume a: "lexUnsigned s = Some (q, rest)"
  then obtain ip s2 where 1: "lexInt s = Some (ip, s2)"
    by (auto simp: lexUnsigned_def split: option.splits)
  with a obtain fd s3 where 2: "lexFrac s2 = Some (fd, s3)"
    by (auto simp: lexUnsigned_def split: option.splits)
  with a 1 obtain e where 3: "lexExp s3 = Some (e, rest)"
    by (auto simp: lexUnsigned_def split: option.splits)
  from lexInt_suffix[OF 1] lexFrac_suffix[OF 2] lexExp_suffix[OF 3]
  show ?thesis using suffix_order.trans by blast
qed

lemma lexNumber_suffix: "lexNumber s = Some (n, rest) \<Longrightarrow> suffix rest s"
  by (cases s) (auto simp: suffix_ConsI split: if_splits option.splits dest: lexUnsigned_suffix)

lemma lexLiteral_cases:
  "lexLiteral s = Some (tok, rest) \<Longrightarrow>
     (tok = TTrue \<or> tok = TFalse \<or> tok = TNull) \<and> suffix rest s"
  by (auto simp: lexLiteral_def suffix_drop split: if_splits)

lemma lexPunct_TRBrace: "lexPunct c = Some TRBrace \<Longrightarrow> c = CHR ''}''"
  by (simp add: lexPunct_def split: if_splits)

lemma lexToken_cases:
  assumes "lexToken s = Some (tok, rest)"
  shows "suffix rest s \<and> (tok = TRBrace \<longrightarrow> s = CHR ''}'' # rest)"
proof (cases s)
  case Nil
  with assms show ?thesis by (simp add: lexToken_def)
next
  case (Cons c cs)
  show ?thesis
  proof (cases "lexPunct c")
    case (Some t)
    with assms Cons have "tok = t" "rest = cs" by (simp_all add: lexToken_def)
    with Some Cons show ?thesis using lexPunct_TRBrace by (auto simp: suffix_ConsI)
  next
    case None
    show ?thesis
    proof (cases "c = CHR 0x22")
      case True
      with assms Cons None obtain str where s: "lexString cs = Some (str, rest)"
        and "tok = TString str"
        by (auto simp: lexToken_def split: option.splits)
      with lexString_suffix[OF s] show ?thesis using Cons by (simp add: suffix_ConsI)
    next
      case nq: False
      show ?thesis
      proof (cases "c = CHR ''-'' \<or> isDigit c")
        case True
        with assms Cons None nq obtain n where n: "lexNumber s = Some (n, rest)"
          and "tok = TNumber n"
          by (auto simp: lexToken_def simp del: lexNumber.simps split: option.splits)
        with lexNumber_suffix[OF n] show ?thesis by simp
      next
        case False
        with assms Cons None nq have "lexLiteral s = Some (tok, rest)"
          by (simp add: lexToken_def)
        from lexLiteral_cases[OF this] show ?thesis by auto
      qed
    qed
  qed
qed

lemma lex_Nil: "lex s = Some [] \<Longrightarrow> \<forall>c \<in> set s. isJsonWs c"
proof (induction s rule: lex.induct)
  case 1
  then show ?case by simp
next
  case (2 c cs)
  show ?case
  proof (cases "isJsonWs c")
    case True
    with 2 show ?thesis by simp
  next
    case False
    with "2.prems" show ?thesis by (auto split: option.splits)
  qed
qed

lemma lex_last_TRBrace:
  "lex s = Some toks \<Longrightarrow> toks \<noteq> [] \<Longrightarrow> last toks = TRBrace \<Longrightarrow>
     \<exists>A B. s = A @ CHR ''}'' # B \<and> (\<forall>c \<in> set B. isJsonWs c)"
proof (induction s arbitrary: toks rule: lex.induct)
  case 1
  then show ?case by simp
next
  case (2 c cs)
  show ?case
  proof (cases "isJsonWs c")
    case True
    with "2.prems" have "lex cs = Some toks" by simp
    from "2.IH"(1)[OF True this "2.prems"(2,3)] obtain A B
      where "cs = A @ CHR ''}'' # B" "\<forall>c \<in> set B. isJsonWs c" by blast
    then have "c # cs = (c # A) @ CHR ''}'' # B \<and> (\<forall>c \<in> set B. isJsonWs c)" by simp
    then show ?thesis by blast
  next
    case False
    with "2.prems"(1) obtain tok rest toks' where t: "lexToken (c # cs) = Some (tok, rest)"
      and l: "lex rest = Some toks'" and toks: "toks = tok # toks'"
      by (auto split: option.splits)
    from lexToken_cases[OF t] have suf: "suffix rest (c # cs)"
      and br: "tok = TRBrace \<longrightarrow> c # cs = CHR ''}'' # rest" by blast+
    show ?thesis
    proof (cases "toks' = []")
      case True
      with toks "2.prems"(3) have "tok = TRBrace" by simp
      with br have "c # cs = [] @ CHR ''}'' # rest" by simp
      moreover from l True have "\<forall>c \<in> set rest. isJsonWs c" using lex_Nil by blast
      ultimately show ?thesis by blast
    next
      case ne: False
      with toks "2.prems"(3) have "last toks' = TRBrace" by simp
      from "2.IH"(2)[OF False t _ l ne this] obtain A B
        where r: "rest = A @ CHR ''}'' # B" and B: "\<forall>c \<in> set B. isJsonWs c" by auto
      from suf obtain pre where "c # cs = pre @ rest" by (auto simp: suffix_def)
      with r have "c # cs = (pre @ A) @ CHR ''}'' # B" by simp
      with B show ?thesis by blast
    qed
  qed
qed

lemma complete_Done:
  "complete v st = Some (Done w, st') \<Longrightarrow> w = v"
  by (cases "(v, st)" rule: complete.cases) auto

lemma startValue_Done:
  "startValue t st = Some (Done (JObject ms), st') \<Longrightarrow> False"
  by (cases "(t, st)" rule: startValue.cases) (auto dest: complete_Done)

lemma closeArray_Done:
  "closeArray st = Some (Done (JObject ms), st') \<Longrightarrow> False"
  by (cases st rule: closeArray.cases) (auto dest: complete_Done)

lemma startMember_Done:
  "startMember t st = Some (Done v, st') \<Longrightarrow> False"
  by (cases "(t, st)" rule: startMember.cases) auto

lemma step_Done_object:
  assumes "step p st t = Some (Done (JObject ms), st')"
  shows "t = TRBrace"
proof (cases p)
  case WantValue
  with assms show ?thesis using startValue_Done by auto
next
  case WantValueOrClose
  with assms show ?thesis using startValue_Done closeArray_Done by (auto split: if_splits)
next
  case WantKeyOrClose
  with assms show ?thesis using startMember_Done by (auto split: if_splits)
next
  case WantKey
  with assms show ?thesis using startMember_Done by auto
next
  case WantColon
  with assms show ?thesis by (auto split: if_splits)
next
  case AfterValue
  with assms show ?thesis
    by (auto split: list.splits frame.splits if_splits dest: complete_Done)
next
  case (Done v)
  with assms show ?thesis by simp
qed

lemma run_object_last:
  "run p st toks = Some (JObject ms) \<Longrightarrow> (\<forall>v. p \<noteq> Done v) \<Longrightarrow>
     toks \<noteq> [] \<and> last toks = TRBrace"
proof (induction toks arbitrary: p st)
  case Nil
  then show ?case by (cases p) auto
next
  case (Cons t ts)
  from Cons.prems(1) obtain p' st' where s: "step p st t = Some (p', st')"
    and r: "run p' st' ts = Some (JObject ms)"
    by (auto split: option.splits)
  show ?case
  proof (cases "\<exists>v. p' = Done v")
    case True
    then obtain v where v: "p' = Done v" by blast
    with r have ts: "ts = []" by (cases ts) auto
    with r v have "v = JObject ms" by simp
    with s v have "t = TRBrace" using step_Done_object by blast
    with ts show ?thesis by simp
  next
    case False
    with Cons.IH[OF r] have "ts \<noteq> [] \<and> last ts = TRBrace" by blast
    then show ?thesis by simp
  qed
qed

lemma JSON_parse_object_ends:
  assumes "JSON_parse J = Some (JObject ms)"
  shows "\<exists>A B. J = A @ CHR ''}'' # B \<and> (\<forall>c \<in> set B. isJsonWs c)"
proof -
  from assms obtain toks where l: "lex J = Some toks"
    and r: "run WantValue [] toks = Some (JObject ms)"
    by (auto simp: JSON_parse_def split: option.splits)
  from run_object_last[OF r] have "toks \<noteq> []" "last toks = TRBrace" by auto
  from lex_last_TRBrace[OF l this] show ?thesis .
qed

subsection \<open>Removing the fences\<close>

lemma lowerChar_backtick: "lowerChar c = CHR 0x60 \<Longrightarrow> c = CHR 0x60"
proof (rule ccontr)
  assume l: "lowerChar c = CHR 0x60" and n: "c \<noteq> CHR 0x60"
  then have up: "isUpperCase c" and s: "setBit5 c = CHR 0x60"
    by (auto simp: lowerChar_def split: if_splits)
  obtain b0 b1 b2 b3 b4 b5 b6 b7 where c: "c = Char b0 b1 b2 b3 b4 b5 b6 b7"
    by (cases c)
  with s have "c = Char False False False False False b5 True False" by simp
  with n have "c = Char False False False False False False True False"
    by (cases b5) simp_all
  with up show False by (simp add: isUpperCase_def)
qed

lemma lowerChar_brace: "lowerChar (CHR ''}'') = CHR ''}''"
  by (simp add: lowerChar_def isUpperCase_def)

lemma matchFence_prefix: "matchFence s \<noteq> 0 \<Longrightarrow> prefix threeBackticks s"
proof -
  assume "matchFence s \<noteq> 0"
  then have "take 3 s = threeBackticks"
    by (simp add: matchFence_def threeBackticks_def split: if_splits)
  then have "s = threeBackticks @ drop 3 s"
    using append_take_drop_id[of 3 s] by simp
  then show ?thesis using prefixI by blast
qed

lemma matchFenceJson_prefix: "matchFenceJson s \<noteq> 0 \<Longrightarrow> prefix threeBackticks s"
proof -
  assume "matchFenceJson s \<noteq> 0"
  then have "map lowerChar (take 7 s) =
      [CHR 0x60, CHR 0x60, CHR 0x60, CHR ''j'', CHR ''s'', CHR ''o'', CHR ''n'']"
    by (simp add: matchFenceJson_def toLowerCase_def split: if_splits)
  then obtain a b c r where t: "take 7 s = a # b # c # r"
    and l: "lowerChar a = CHR 0x60" "lowerChar b = CHR 0x60" "lowerChar c = CHR 0x60"
    by (auto simp: map_eq_Cons_conv)
  from l have "a = CHR 0x60" "b = CHR 0x60" "c = CHR 0x60"
    using lowerChar_backtick by blast+
  with t have "take 7 s = threeBackticks @ r" by (simp add: threeBackticks_def)
  then have "s = threeBackticks @ (r @ drop 7 s)"
    using append_take_drop_id[of 7 s] by simp
  then show ?thesis using prefixI by blast
qed

lemma newlineAt_brace:
  "n \<le> length xs \<Longrightarrow> newlineAt n (xs @ CHR ''}'' # ys) = newlineAt n xs"
  by (auto simp: newlineAt_def nth_append)

lemma take_brace:
  assumes "length xs < n"
  shows "CHR ''}'' \<in> set (take n (xs @ CHR ''}'' # ys))"
  using assms by (cases "n - length xs") auto

lemma member_differs: "x \<in> set xs \<Longrightarrow> x \<notin> set ys \<Longrightarrow> xs \<noteq> ys"
  by blast

lemma matchFence_brace: "matchFence (xs @ CHR ''}'' # ys) = matchFence xs"
proof (cases "3 \<le> length xs")
  case True
  then show ?thesis by (simp add: matchFence_def newlineAt_brace)
next
  case False
  then have "CHR ''}'' \<in> set (take 3 (xs @ CHR ''}'' # ys))"
    using take_brace[of xs 3 ys] by simp
  then have 1: "take 3 (xs @ CHR ''}'' # ys) \<noteq> [CHR 0x60, CHR 0x60, CHR 0x60]"
    by (rule member_differs) simp
  from False have "length (take 3 xs) \<noteq> 3" by simp
  then have 2: "take 3 xs \<noteq> [CHR 0x60, CHR 0x60, CHR 0x60]" by auto
  from 1 2 show ?thesis by (simp add: matchFence_def)
qed

lemma matchFenceJson_brace: "matchFenceJson (xs @ CHR ''}'' # ys) = matchFenceJson xs"
proof (cases "7 \<le> length xs")
  case True
  then show ?thesis by (simp add: matchFenceJson_def newlineAt_brace)
next
  case False
  then have "CHR ''}'' \<in> set (take 7 (xs @ CHR ''}'' # ys))"
    using take_brace[of xs 7 ys] by simp
  then have "lowerChar (CHR ''}'') \<in> set (map lowerChar (take 7 (xs @ CHR ''}'' # ys)))"
    by (simp only: set_map) (rule imageI)
  then have "CHR ''}'' \<in> set (toLowerCase (take 7 (xs @ CHR ''}'' # ys)))"
    by (simp only: lowerChar_brace toLowerCase_def)
  then have 1: "toLowerCase (take 7 (xs @ CHR ''}'' # ys)) \<noteq>
      [CHR 0x60, CHR 0x60, CHR 0x60, CHR ''j'', CHR ''s'', CHR ''o'', CHR ''n'']"
    by (rule member_differs) simp
  from False have "length (toLowerCase (take 7 xs)) \<noteq> 7" by (simp add: toLowerCase_def)
  then have 2: "toLowerCase (take 7 xs) \<noteq>
      [CHR 0x60, CHR 0x60, CHR 0x60, CHR ''j'', CHR ''s'', CHR ''o'', CHR ''n'']"
    by auto
  from 1 2 show ?thesis by (simp add: matchFenceJson_def)
qed

lemma matchFence_le: "matchFence s \<le> length s"
proof (cases "take 3 s = [CHR 0x60, CHR 0x60, CHR 0x60]")
  case True
  then have "length (take 3 s) = 3" by simp
  then have "3 \<le> length s" by simp
  then show ?thesis by (auto simp: matchFence_def newlineAt_def)
next
  case False
  then show ?thesis by (simp add: matchFence_def)
qed

lemma matchFenceJson_le: "matchFenceJson s \<le> length s"
proof (cases "toLowerCase (take 7 s) =
    [CHR 0x60, CHR 0x60, CHR 0x60, CHR ''j'', CHR ''s'', CHR ''o'', CHR ''n'']")
  case True
  then have "length (toLowerCase (take 7 s)) = 7" by simp
  then have "7 \<le> length s" by (simp add: toLowerCase_def)
  then show ?thesis by (auto simp: matchFenceJson_def newlineAt_def)
next
  case False
  then show ?thesis by (simp add: matchFenceJson_def)
qed

text \<open>
  What holds of every pattern that starts with three backticks and has no closing brace in
  it: a run without a backtick is kept, a text without three backticks in a row is kept, and
  a closing brace separates what is removed before it from what is removed after it.
\<close>

lemma removeAll_skip:
  assumes m: "\<And>s. m s \<noteq> 0 \<Longrightarrow> prefix threeBackticks s"
      and ws: "\<forall>c \<in> set ws. c \<noteq> CHR 0x60"
  shows "removeAll m (ws @ X) = ws @ removeAll m X"
  using ws
proof (induction ws)
  case Nil
  then show ?case by simp
next
  case (Cons c cs)
  then have "c \<noteq> CHR 0x60" by simp
  then have "\<not> prefix threeBackticks (c # cs @ X)" by (simp add: threeBackticks_def)
  with m have "m (c # cs @ X) = 0" by blast
  with Cons show ?case by simp
qed

lemma removeAll_id:
  assumes m: "\<And>s. m s \<noteq> 0 \<Longrightarrow> prefix threeBackticks s"
  shows "\<not> includes_str s threeBackticks \<Longrightarrow> removeAll m s = s"
proof (induction s)
  case Nil
  then show ?case by simp
next
  case (Cons c cs)
  then have "\<not> prefix threeBackticks (c # cs)" and n: "\<not> includes_str cs threeBackticks"
    by simp_all
  with m have "m (c # cs) = 0" by blast
  with Cons.IH[OF n] show ?case by simp
qed

lemma removeAll_brace:
  assumes loc: "\<And>xs ys. m (xs @ CHR ''}'' # ys) = m xs"
      and le: "\<And>s. m s \<le> length s"
  shows "removeAll m (xs @ CHR ''}'' # ys) = removeAll m xs @ CHR ''}'' # removeAll m ys"
proof (induction xs rule: length_induct)
  case (1 xs)
  show ?case
  proof (cases xs)
    case Nil
    from loc[of "[]" ys] le[of "[]"] have "m (CHR ''}'' # ys) = 0" by simp
    with Nil show ?thesis by simp
  next
    case (Cons c cs)
    show ?thesis
    proof (cases "m (c # cs)")
      case 0
      with loc[of "c # cs" ys] have z: "m (c # cs @ CHR ''}'' # ys) = 0" by simp
      from 1 Cons have "removeAll m (cs @ CHR ''}'' # ys) =
          removeAll m cs @ CHR ''}'' # removeAll m ys" by simp
      with 0 z Cons show ?thesis by simp
    next
      case (Suc k)
      with loc[of "c # cs" ys] have z: "m (c # cs @ CHR ''}'' # ys) = Suc k" by simp
      from Suc le[of "c # cs"] have k: "k \<le> length cs" by simp
      then have d: "drop k (cs @ CHR ''}'' # ys) = drop k cs @ CHR ''}'' # ys" by simp
      have "length (drop k cs) < length xs" using Cons by simp
      with 1 have "removeAll m (drop k cs @ CHR ''}'' # ys) =
          removeAll m (drop k cs) @ CHR ''}'' # removeAll m ys" by blast
      with Suc z d Cons show ?thesis by simp
    qed
  qed
qed

lemma dropWhile_stop:
  "\<not> P y \<Longrightarrow> dropWhile P (X @ y # Y) = dropWhile P X @ y # Y"
  by (induction X) simp_all

lemma brace_not_space: "\<not> isWhiteSpace (CHR ''}'')"
  by (simp add: isWhiteSpace_def)

lemma trim_brace:
  assumes "\<forall>c \<in> set ws. isWhiteSpace c"
  shows "trim (X @ CHR ''}'' # ws) = trimStart X @ [CHR ''}'']"
proof -
  have "trimStart (X @ CHR ''}'' # ws) = trimStart X @ CHR ''}'' # ws"
    unfolding trimStart_def using brace_not_space by (rule dropWhile_stop)
  moreover have "trimEnd (Z @ CHR ''}'' # ws) = Z @ [CHR ''}'']" for Z
  proof -
    have "dropWhile isWhiteSpace (rev ws @ CHR ''}'' # rev Z) =
        dropWhile isWhiteSpace (CHR ''}'' # rev Z)"
      using assms by (intro dropWhile_append2) simp
    then show ?thesis by (simp add: trimEnd_def brace_not_space)
  qed
  ultimately show ?thesis by (simp add: trim_def)
qed

lemma trimStart_skip:
  "\<forall>c \<in> set ws. isWhiteSpace c \<Longrightarrow> trimStart (ws @ X) = trimStart X"
  unfolding trimStart_def by (intro dropWhile_append2) simp

lemma jsonWs_space: "isJsonWs c \<Longrightarrow> isWhiteSpace c \<and> c \<noteq> CHR 0x60"
  by (auto simp: isJsonWs_def isWhiteSpace_def)

lemma space_not_backtick: "isWhiteSpace c \<Longrightarrow> c \<noteq> CHR 0x60"
  by (auto simp: isWhiteSpace_def)

text \<open>
  The two replacements and the \<^verbatim>\<open>trim\<close> after them, on a text whose last character that is
  not white space is a closing brace.
\<close>

definition stripFences :: "string \<Rightarrow> string" where
  "stripFences s = trim (removeAll matchFence (removeAll matchFenceJson s))"

lemma stripFences_brace:
  assumes "\<forall>c \<in> set B. isWhiteSpace c"
  shows "stripFences (A @ CHR ''}'' # B) =
           trimStart (removeAll matchFence (removeAll matchFenceJson A)) @ [CHR ''}'']"
proof -
  from assms have nb: "\<forall>c \<in> set B. c \<noteq> CHR 0x60" using space_not_backtick by blast
  have 1: "removeAll matchFenceJson (A @ CHR ''}'' # B) =
      removeAll matchFenceJson A @ CHR ''}'' # B"
    using removeAll_brace[of matchFenceJson A B, OF matchFenceJson_brace matchFenceJson_le]
          removeAll_skip[of matchFenceJson B "[]", OF matchFenceJson_prefix nb]
    by simp
  have 2: "removeAll matchFence (removeAll matchFenceJson A @ CHR ''}'' # B) =
      removeAll matchFence (removeAll matchFenceJson A) @ CHR ''}'' # B"
    using removeAll_brace[of matchFence "removeAll matchFenceJson A" B,
            OF matchFence_brace matchFence_le]
          removeAll_skip[of matchFence B "[]", OF matchFence_prefix nb]
    by simp
  from 1 2 trim_brace[OF assms] show ?thesis by (simp add: stripFences_def)
qed

lemma stripFences_closing:
  assumes "\<forall>c \<in> set B. isWhiteSpace c"
  shows "stripFences (A @ CHR ''}'' # B @ [CHR 0x0A, CHR 0x60, CHR 0x60, CHR 0x60]) =
           stripFences (A @ CHR ''}'' # B)"
proof -
  let ?close = "[CHR 0x0A, CHR 0x60, CHR 0x60, CHR 0x60]"
  from assms have nb: "\<forall>c \<in> set B. c \<noteq> CHR 0x60" using space_not_backtick by blast
  have c1: "removeAll matchFenceJson ?close = ?close"
    by (simp add: matchFenceJson_def toLowerCase_def)
  have c2: "removeAll matchFence ?close = [CHR 0x0A]"
    by (simp add: matchFence_def newlineAt_def)
  have 1: "removeAll matchFenceJson (A @ CHR ''}'' # B @ ?close) =
      removeAll matchFenceJson A @ CHR ''}'' # B @ ?close"
    using removeAll_brace[of matchFenceJson A "B @ ?close",
            OF matchFenceJson_brace matchFenceJson_le]
          removeAll_skip[of matchFenceJson B ?close, OF matchFenceJson_prefix nb] c1
    by simp
  have 2: "removeAll matchFence (removeAll matchFenceJson A @ CHR ''}'' # B @ ?close) =
      removeAll matchFence (removeAll matchFenceJson A) @ CHR ''}'' # B @ [CHR 0x0A]"
    using removeAll_brace[of matchFence "removeAll matchFenceJson A" "B @ ?close",
            OF matchFence_brace matchFence_le]
          removeAll_skip[of matchFence B ?close, OF matchFence_prefix nb] c2
    by simp
  have ws: "\<forall>c \<in> set (B @ [CHR 0x0A]). isWhiteSpace c"
    using assms by (simp add: isWhiteSpace_def)
  from 1 2 trim_brace[OF ws, of "removeAll matchFence (removeAll matchFenceJson A)"]
       stripFences_brace[OF assms, of A]
  show ?thesis by (simp add: stripFences_def)
qed

lemma strip_trimStart:
  "trimStart (removeAll matchFence (removeAll matchFenceJson (trimStart s))) =
   trimStart (removeAll matchFence (removeAll matchFenceJson s))"
proof -
  let ?ws = "takeWhile isWhiteSpace s"
  have s: "?ws @ trimStart s = s" by (simp add: trimStart_def)
  have sp: "\<forall>c \<in> set ?ws. isWhiteSpace c" by (auto dest: set_takeWhileD)
  then have nb: "\<forall>c \<in> set ?ws. c \<noteq> CHR 0x60" using space_not_backtick by blast
  have "removeAll matchFence (removeAll matchFenceJson (?ws @ trimStart s)) =
      ?ws @ removeAll matchFence (removeAll matchFenceJson (trimStart s))"
    using removeAll_skip[of matchFenceJson ?ws "trimStart s", OF matchFenceJson_prefix nb]
          removeAll_skip[of matchFence ?ws, OF matchFence_prefix nb]
    by simp
  then have "trimStart (removeAll matchFence (removeAll matchFenceJson (?ws @ trimStart s))) =
      trimStart (removeAll matchFence (removeAll matchFenceJson (trimStart s)))"
    using trimStart_skip[OF sp] by simp
  then show ?thesis by (simp only: s)
qed

lemma trimStart_idem: "trimStart (trimStart s) = trimStart s"
  by (simp add: trimStart_def)

fun orItself :: "string option \<Rightarrow> string \<Rightarrow> string" where
  "orItself (Some m) t = m"
| "orItself None t = t"

lemma extractJsonText_brace:
  assumes "\<forall>c \<in> set B. isWhiteSpace c"
  shows "extractJsonText (A @ CHR ''}'' # B) =
           orItself (matchBraces (stripFences (A @ CHR ''}'' # B)))
             (stripFences (A @ CHR ''}'' # B))"
proof -
  let ?s = "A @ CHR ''}'' # B"
  have t: "trim ?s = trimStart A @ [CHR ''}'']" using trim_brace[OF assms] .
  have e: "\<forall>c \<in> set ([] :: string). isWhiteSpace c" by simp
  have sf: "stripFences (trim ?s) = stripFences ?s"
    using stripFences_brace[OF e, of "trimStart A"] stripFences_brace[OF assms, of A]
          strip_trimStart[of A] t
    by simp
  have "stripFences (trim ?s) = trim ?s" if n: "\<not> includes_str (trim ?s) threeBackticks"
  proof -
    from n have "removeAll matchFenceJson (trim ?s) = trim ?s"
      using removeAll_id[of matchFenceJson, OF matchFenceJson_prefix] by blast
    moreover from n have "removeAll matchFence (trim ?s) = trim ?s"
      using removeAll_id[of matchFence, OF matchFence_prefix] by blast
    moreover have "trim (trim ?s) = trim ?s"
      using trim_brace[OF e, of "trimStart A"] t by (simp add: trimStart_idem)
    ultimately show ?thesis by (simp add: stripFences_def)
  qed
  then have "(if includes_str (trim ?s) threeBackticks
              then trim (removeAll matchFence (removeAll matchFenceJson (trim ?s)))
              else trim ?s) = stripFences ?s"
    using sf by (auto simp: stripFences_def)
  then show ?thesis
    by (cases "matchBraces (stripFences ?s)") (simp_all add: extractJsonText_def Let_def)
qed

text \<open>
  A reply in a fenced code block: the opening fence with its language tag, a line feed, the
  text, a line feed, the closing fence.
\<close>

definition fenced :: "string \<Rightarrow> string \<Rightarrow> string" where
  "fenced lang j = threeBackticks @ lang @ [CHR 0x0A] @ j @ [CHR 0x0A] @ threeBackticks"

lemma fenced_trim: "trim (fenced lang j) = fenced lang j"
proof -
  have "trimStart (fenced lang j) = fenced lang j"
    by (simp add: fenced_def threeBackticks_def trimStart_def isWhiteSpace_def)
  moreover have "trimEnd (fenced lang j) = fenced lang j"
    by (simp add: fenced_def threeBackticks_def trimEnd_def isWhiteSpace_def)
  ultimately show ?thesis by (simp add: trim_def)
qed

lemma fenced_includes: "includes_str (fenced lang j) threeBackticks"
  by (simp add: fenced_def threeBackticks_def)

lemma extractJsonText_fenced:
  "extractJsonText (fenced lang j) =
     orItself (matchBraces (stripFences (fenced lang j))) (stripFences (fenced lang j))"
  by (cases "matchBraces (stripFences (fenced lang j))")
     (simp_all add: extractJsonText_def Let_def fenced_trim fenced_includes stripFences_def)

lemma stripFences_fenced_json:
  "stripFences (fenced ''json'' j) =
     stripFences (j @ [CHR 0x0A, CHR 0x60, CHR 0x60, CHR 0x60])"
  by (simp add: stripFences_def fenced_def threeBackticks_def matchFenceJson_def
        toLowerCase_def lowerChar_def isUpperCase_def newlineAt_def)

lemma stripFences_fenced_plain:
  "stripFences (fenced [] j) =
     stripFences (j @ [CHR 0x0A, CHR 0x60, CHR 0x60, CHR 0x60])"
  by (simp add: stripFences_def fenced_def threeBackticks_def matchFenceJson_def
        matchFence_def toLowerCase_def lowerChar_def isUpperCase_def newlineAt_def)

lemma extractJsonText_fenced_brace:
  assumes "\<forall>c \<in> set B. isWhiteSpace c"
  shows "extractJsonText (fenced ''json'' (A @ CHR ''}'' # B)) =
           extractJsonText (A @ CHR ''}'' # B)"
    and "extractJsonText (fenced [] (A @ CHR ''}'' # B)) =
           extractJsonText (A @ CHR ''}'' # B)"
  using stripFences_closing[OF assms, of A]
  by (simp_all add: extractJsonText_fenced extractJsonText_brace[OF assms]
        stripFences_fenced_json stripFences_fenced_plain)

lemma extractJsonText_fenced_object:
  assumes "JSON_parse J = Some (JObject members)"
  shows "extractJsonText (fenced ''json'' J) = extractJsonText J"
    and "extractJsonText (fenced [] J) = extractJsonText J"
proof -
  from JSON_parse_object_ends[OF assms] obtain A B
    where J: "J = A @ CHR ''}'' # B" and B: "\<forall>c \<in> set B. isJsonWs c" by blast
  from B have "\<forall>c \<in> set B. isWhiteSpace c" using jsonWs_space by blast
  from extractJsonText_fenced_brace[OF this, of A] J
  show "extractJsonText (fenced ''json'' J) = extractJsonText J"
    and "extractJsonText (fenced [] J) = extractJsonText J"
    by simp_all
qed







text \<open>
  Three backticks in a row inside a string of the reply are removed with the fences, fenced
  or not: what is parsed then is not the object the reply denotes; the result is the same
  with and without the fence all the same.
\<close>

definition backtickReply :: string where
  \<open>backtickReply =
     ''{"isOriginal":true,"confidence":50,"observations":["a '' @ threeBackticks @
     ''b'' @ threeBackticks @ '' c"]}''\<close>

lemma backtickReply_value:
  "JSON_parse backtickReply =
     Some (JObject [(''isOriginal'', JBool True), (''confidence'', JNumber (Finite 50)),
                    (''observations'',
                     JArray [JString (''a '' @ threeBackticks @ ''b'' @ threeBackticks @ '' c'')])])"
  by (simp add: backtickReply_def threeBackticks_def json_eval)

lemma backtickReply_stripped:
  \<open>extractJsonText backtickReply =
     ''{"isOriginal":true,"confidence":50,"observations":["a b c"]}''\<close>
  by (simp add: backtickReply_def threeBackticks_def extractJsonText_def trim_def trimStart_def
        trimEnd_def isWhiteSpace_def matchBraces_def matchFence_def matchFenceJson_def
        newlineAt_def toLowerCase_def lowerChar_def isUpperCase_def)

lemma backticks_in_a_string_are_removed:
  "parseStrict e method backtickReply =
     Inr \<lparr>isOriginal = True, confidence = Finite 50, summary = [JString ''a b c''],
          analysisMethod = method, fallbackReason = None\<rparr> \<and>
   parseStrict e method (fenced ''json'' backtickReply) = parseStrict e method backtickReply \<and>
   parseStrict e method (fenced [] backtickReply) = parseStrict e method backtickReply"
proof -
  have "parseStrict e method backtickReply =
     Inr \<lparr>isOriginal = True, confidence = Finite 50, summary = [JString ''a b c''],
          analysisMethod = method, fallbackReason = None\<rparr>"
    by (simp add: parseStrict_def backtickReply_stripped validated_def json_eval floor_101_half)
  moreover from extractJsonText_fenced_object[OF backtickReply_value]
  have "parseStrict e method (fenced ''json'' backtickReply) = parseStrict e method backtickReply"
    and "parseStrict e method (fenced [] backtickReply) = parseStrict e method backtickReply"
    by (simp_all add: parseStrict_def)
  ultimately show ?thesis by simp
qed

end
